theory Spec2Isabelle
  imports Main "HOL-Library.Char_ord" "HOL-Library.List_Lexorder" "HOL-Library.Product_Lexorder"
begin

section \<open>Strings as Python and SQLite handle them\<close>

text \<open>
  Strings are byte strings (\<open>char list\<close>). SQLite compares TEXT values under the BINARY
  collation, byte by byte, a proper prefix being smaller: that is the lexicographic
  order of \<open>HOL-Library.List_Lexorder\<close> over the byte order of \<open>HOL-Library.Char_ord\<close>.
  Lengths and slices count bytes, which is what Python counts on ASCII text.
\<close>

definition newline :: string where
  "newline = [CHR 0x0A]"

definition dquote :: string where
  "dquote = [CHR 0x22]"

definition digit_char :: "nat \<Rightarrow> char" where
  "digit_char n = ''0123456789'' ! (n mod 10)"

text \<open>Python's \<open>str(n)\<close> for a natural number and for an integer.\<close>

function str_nat :: "nat \<Rightarrow> string" where
  "str_nat n = (if n < 10 then [digit_char n] else str_nat (n div 10) @ [digit_char n])"
  by pat_completeness auto
termination
  by (relation "measure id") auto

declare str_nat.simps [simp del]

definition str_int :: "int \<Rightarrow> string" where
  "str_int i = (if i < 0 then CHR ''-'' # str_nat (nat (- i)) else str_nat (nat i))"

text \<open>The format \<open>%0wd\<close> of a natural number: zeros on the left up to width \<open>w\<close>.\<close>

definition zpad :: "nat \<Rightarrow> nat \<Rightarrow> string" where
  "zpad w n = replicate (w - length (str_nat n)) (CHR ''0'') @ str_nat n"

text \<open>\<open>sep.join(xs)\<close> and \<open>s.split(c)\<close> for a one-character separator.\<close>

fun join :: "string \<Rightarrow> string list \<Rightarrow> string" where
  "join sep [] = []"
| "join sep [x] = x"
| "join sep (x # y # ys) = x @ sep @ join sep (y # ys)"

fun split_char :: "char \<Rightarrow> string \<Rightarrow> string list" where
  "split_char c [] = [[]]"
| "split_char c (x # xs) =
     (if x = c then [] # split_char c xs
      else (case split_char c xs of
              [] \<Rightarrow> [[x]]
            | w # ws \<Rightarrow> (x # w) # ws))"

text \<open>
  \<open>str.strip()\<close>: the ASCII characters Python counts as whitespace (tab, line feed,
  vertical tab, form feed, carriage return, the four separators 0x1C to 0x1F, space).
\<close>

definition is_space :: "char \<Rightarrow> bool" where
  "is_space c = (c \<in> set [CHR 0x09, CHR 0x0A, CHR 0x0B, CHR 0x0C, CHR 0x0D,
                            CHR 0x1C, CHR 0x1D, CHR 0x1E, CHR 0x1F, CHR 0x20])"

definition strip :: "string \<Rightarrow> string" where
  "strip s = rev (dropWhile is_space (rev (dropWhile is_space s)))"

text \<open>\<open>str.lstrip("#")\<close> as \<open>tag_command\<close> calls it.\<close>

definition lstrip_char :: "char \<Rightarrow> string \<Rightarrow> string" where
  "lstrip_char c s = dropWhile (\<lambda>x. x = c) s"

text \<open>
  Python's \<open>int(s)\<close>. On an ASCII string (\<open>ascii_int\<close>) surrounding whitespace is
  dropped, one sign is allowed, and the digits may be grouped by single underscores;
  \<open>None\<close> is the \<open>ValueError\<close>. The whitespace \<open>int\<close> drops from an ASCII string is
  tab, line feed, vertical tab, form feed, carriage return and space: unlike
  \<open>str.strip()\<close> it refuses the separators 0x1C to 0x1F. Beyond ASCII \<open>int\<close> also reads
  the decimal digits and the white space of other scripts (\<open>int\<close> of the fullwidth
  digit one, U+FF11, is 1), and above 4300 digits recent versions refuse the
  conversion: on a string with a byte outside ASCII, or longer than 4300 bytes,
  \<open>py_int\<close> returns what its parameter \<open>int_outside\<close> returns, which stands for \<open>int\<close> on
  those strings.
\<close>

definition is_int_space :: "char \<Rightarrow> bool" where
  "is_int_space c = (c \<in> set [CHR 0x09, CHR 0x0A, CHR 0x0B, CHR 0x0C, CHR 0x0D, CHR 0x20])"

definition int_strip :: "string \<Rightarrow> string" where
  "int_strip s = rev (dropWhile is_int_space (rev (dropWhile is_int_space s)))"

definition is_digit :: "char \<Rightarrow> bool" where
  "is_digit c = (CHR ''0'' \<le> c \<and> c \<le> CHR ''9'')"

definition digit_val :: "char \<Rightarrow> nat" where
  "digit_val c = of_char c - 48"

definition digits_val :: "string \<Rightarrow> nat" where
  "digits_val ds = foldl (\<lambda>acc c. 10 * acc + digit_val c) 0 ds"

definition py_digits :: "string \<Rightarrow> nat option" where
  "py_digits body =
     (let groups = split_char (CHR ''_'') body in
      if list_all (\<lambda>g. g \<noteq> [] \<and> list_all is_digit g) groups
      then Some (digits_val (concat groups)) else None)"

definition ascii_int :: "string \<Rightarrow> int option" where
  "ascii_int s =
     (case int_strip s of
        [] \<Rightarrow> None
      | c # cs \<Rightarrow>
          if c = CHR ''-'' then map_option (\<lambda>n. - int n) (py_digits cs)
          else if c = CHR ''+'' then map_option int (py_digits cs)
          else map_option int (py_digits (c # cs)))"

definition is_ascii :: "char \<Rightarrow> bool" where
  "is_ascii c = (of_char c < (128 :: nat))"

definition py_int :: "(string \<Rightarrow> int option) \<Rightarrow> string \<Rightarrow> int option" where
  "py_int int_outside s =
     (if list_all is_ascii s \<and> length s \<le> 4300 then ascii_int s else int_outside s)"

text \<open>Slices \<open>xs[:k]\<close>: a negative \<open>k\<close> counts from the end.\<close>

definition py_take :: "int \<Rightarrow> 'a list \<Rightarrow> 'a list" where
  "py_take k xs = (if 0 \<le> k then take (nat k) xs else take (length xs - nat (- k)) xs)"

text \<open>\<open>truncate(text, length)\<close> of \<open>bot.py\<close> (a record already owns the name).\<close>

definition truncate_str :: "string \<Rightarrow> int \<Rightarrow> string" where
  "truncate_str txt len =
     (if int (length txt) \<le> len then txt else py_take (len - 3) txt @ ''...'')"

section \<open>Time\<close>

text \<open>
  A \<open>datetime\<close> is a reading of a clock, counted in microseconds from
  0001-01-01 00:00:00 of the proleptic Gregorian calendar (day ordinal 1 in Python's
  \<open>datetime\<close>); a \<open>timedelta\<close> is a number of microseconds. Differences and
  comparisons of datetimes are then those of the integers, as in Python.
  Two clocks are read by the program: \<open>datetime.now()\<close> gives the local time with
  microseconds, SQLite's \<open>CURRENT_TIMESTAMP\<close> and \<open>datetime('now', ...)\<close> give UTC in
  whole seconds.
\<close>

type_synonym datetime = int
type_synonym timedelta = int

definition timedelta_minutes :: "int \<Rightarrow> timedelta" where
  "timedelta_minutes m = m * 60 * 1000000"

definition timedelta_days :: "int \<Rightarrow> timedelta" where
  "timedelta_days d = d * 86400 * 1000000"

definition is_leap :: "int \<Rightarrow> bool" where
  "is_leap y = (y mod 4 = 0 \<and> (y mod 100 \<noteq> 0 \<or> y mod 400 = 0))"

definition days_before_year :: "int \<Rightarrow> int" where
  "days_before_year y = (y - 1) * 365 + (y - 1) div 4 - (y - 1) div 100 + (y - 1) div 400"

definition days_in_month :: "bool \<Rightarrow> int \<Rightarrow> int" where
  "days_in_month leap m =
     (if m = 2 \<and> leap then 29
      else [31, 28, 31, 30, 31, 30, 31, 31, 30, 31, 30, 31] ! nat (m - 1))"

definition days_before_month :: "bool \<Rightarrow> int \<Rightarrow> int" where
  "days_before_month leap m =
     [0, 31, 59, 90, 120, 151, 181, 212, 243, 273, 304, 334] ! nat (m - 1)
       + (if 2 < m \<and> leap then 1 else 0)"

definition ymd2ord :: "int \<Rightarrow> int \<Rightarrow> int \<Rightarrow> int" where
  "ymd2ord y m d = days_before_year y + days_before_month (is_leap y) m + d"

text \<open>The day ordinal back to year, month and day, by the library's own steps.\<close>

definition ord2ymd :: "int \<Rightarrow> int \<times> int \<times> int" where
  "ord2ymd n =
     (let n0 = n - 1;
          n400 = n0 div 146097; r400 = n0 mod 146097;
          n100 = r400 div 36524; r100 = r400 mod 36524;
          n4 = r100 div 1461; r4 = r100 mod 1461;
          n1 = r4 div 365; r1 = r4 mod 365;
          y = n400 * 400 + 1 + n100 * 100 + n4 * 4 + n1
      in if n1 = 4 \<or> n100 = 4 then (y - 1, 12, 31)
         else
           (let leap = (n1 = 3 \<and> (n4 \<noteq> 24 \<or> n100 = 3));
                m = (r1 + 50) div 32;
                preceding = days_before_month leap m
            in if r1 < preceding
               then (y, m - 1, r1 - (preceding - days_in_month leap (m - 1)) + 1)
               else (y, m, r1 - preceding + 1)))"

definition mk_datetime :: "int \<Rightarrow> int \<Rightarrow> int \<Rightarrow> int \<Rightarrow> int \<Rightarrow> int \<Rightarrow> int \<Rightarrow> datetime" where
  "mk_datetime y m d hh mm ss us =
     (((ymd2ord y m d - 1) * 86400 + hh * 3600 + mm * 60 + ss) * 1000000 + us)"

definition date_part :: "datetime \<Rightarrow> string" where
  "date_part t =
     (case ord2ymd (t div 86400000000 + 1) of
        (y, m, d) \<Rightarrow> zpad 4 (nat y) @ ''-'' @ zpad 2 (nat m) @ ''-'' @ zpad 2 (nat d))"

definition time_part :: "datetime \<Rightarrow> string" where
  "time_part t =
     (let s = (t mod 86400000000) div 1000000
      in zpad 2 (nat (s div 3600)) @ '':'' @ zpad 2 (nat ((s mod 3600) div 60))
           @ '':'' @ zpad 2 (nat (s mod 60)))"

text \<open>
  \<open>datetime.isoformat()\<close>: the separator is the letter T, and the microseconds are
  printed when they are not zero.
\<close>

definition isoformat :: "datetime \<Rightarrow> string" where
  "isoformat t =
     date_part t @ ''T'' @ time_part t
       @ (if t mod 1000000 = 0 then [] else ''.'' @ zpad 6 (nat (t mod 1000000)))"

text \<open>
  The text SQLite writes for \<open>CURRENT_TIMESTAMP\<close> and \<open>datetime(...)\<close>:
  \<open>YYYY-MM-DD HH:MM:SS\<close>, with a space between date and time.
\<close>

definition sqlite_datetime :: "datetime \<Rightarrow> string" where
  "sqlite_datetime t = date_part t @ '' '' @ time_part t"

text \<open>
  \<open>datetime - timedelta\<close> raises \<open>OverflowError\<close> when the result leaves the years
  1 to 9999; \<open>None\<close> is that error.
\<close>

definition max_datetime :: datetime where
  "max_datetime = 3652059 * 86400 * 1000000"

definition datetime_minus :: "datetime \<Rightarrow> timedelta \<Rightarrow> datetime option" where
  "datetime_minus t d = (if 0 \<le> t - d \<and> t - d < max_datetime then Some (t - d) else None)"

section \<open>The store\<close>

text \<open>
  The two tables of \<open>init_db\<close>. A row is a record with one field per column; a column
  that may hold NULL is an option. The columns \<open>id\<close> and \<open>text\<close> of \<open>quotes\<close> are the
  fields \<open>quote_id\<close> and \<open>quote_text\<close>. Timestamps are stored the way SQLite holds
  them, as text. A table is the list of its rows in insertion order. \<open>quotes_seq\<close> is
  the entry of \<open>sqlite_sequence\<close> that \<open>AUTOINCREMENT\<close> keeps for \<open>quotes\<close>: the
  largest id ever given out.
\<close>

record user_row =
  user_pk :: int
  chat_id :: int
  username :: "string option"
  first_name :: "string option"
  digest_enabled :: int
  daily_quote_enabled :: int
  user_created_at :: string

record quote_row =
  quote_id :: int
  user_id :: int
  quote_text :: string
  url :: "string option"
  source_title :: "string option"
  source_author :: "string option"
  source_domain :: "string option"
  tags :: "string option"
  is_favorite :: int
  times_shown :: int
  last_shown :: "string option"
  created_at :: string

record db =
  users :: "user_row list"
  quotes :: "quote_row list"
  quotes_seq :: int

datatype error = OverflowError | SQLITE_FULL

definition max_rowid :: int where
  "max_rowid = 9223372036854775807"

definition max_list :: "int list \<Rightarrow> int" where
  "max_list xs = foldr max xs 0"

text \<open>
  \<open>ORDER BY k DESC\<close>. SQL leaves the order of rows with equal keys open; the model
  keeps them in table order. \<open>LIMIT n\<close>: a negative \<open>n\<close> is no limit at all in SQLite.
\<close>

definition order_by_desc :: "('a \<Rightarrow> 'k::linorder) \<Rightarrow> 'a list \<Rightarrow> 'a list" where
  "order_by_desc k xs = rev (sort_key k (rev xs))"

definition sql_limit :: "int \<Rightarrow> 'a list \<Rightarrow> 'a list" where
  "sql_limit n xs = (if n < 0 then xs else take (nat n) xs)"

text \<open>
  \<open>x LIKE pattern\<close>: \<open>%\<close> stands for any run of characters, \<open>_\<close> for any single one,
  and ASCII letters match without regard to case. A character is one byte, or a
  byte from 0xC0 on together with the continuation bytes (0x80 to 0xBF) that follow
  it, as SQLite reads UTF-8; the texts are the UTF-8 that Python hands over, without
  a zero byte.
\<close>

definition is_continuation :: "char \<Rightarrow> bool" where
  "is_continuation c = (128 \<le> (of_char c :: nat) \<and> (of_char c :: nat) < 192)"

definition skip_utf8 :: "char \<Rightarrow> string \<Rightarrow> string" where
  "skip_utf8 c cs = (if 192 \<le> (of_char c :: nat) then dropWhile is_continuation cs else cs)"

definition ascii_lower :: "char \<Rightarrow> char" where
  "ascii_lower c = (if CHR ''A'' \<le> c \<and> c \<le> CHR ''Z'' then char_of (of_char c + (32::nat)) else c)"

function sql_like :: "string \<Rightarrow> string \<Rightarrow> bool" where
  "sql_like [] [] = True"
| "sql_like [] (c # cs) = False"
| "sql_like (p # ps) [] = (p = CHR ''%'' \<and> sql_like ps [])"
| "sql_like (p # ps) (c # cs) =
     (if p = CHR ''%'' then sql_like ps (c # cs) \<or> sql_like (p # ps) (skip_utf8 c cs)
      else if p = CHR ''_'' then sql_like ps (skip_utf8 c cs)
      else ascii_lower p = ascii_lower c \<and> sql_like ps cs)"
  by pat_completeness auto

termination sql_like
proof (relation "measure (\<lambda>(p, s). length p + length s)")
  fix c :: char and cs :: string
  have "length (skip_utf8 c cs) \<le> length cs"
    by (simp add: skip_utf8_def length_dropWhile_le)
  then show "((p # ps, skip_utf8 c cs), (p # ps, c # cs)) \<in> measure (\<lambda>(p, s). length p + length s)"
    for p :: char and ps :: string
    by simp
  then show "((ps, skip_utf8 c cs), (p # ps, c # cs)) \<in> measure (\<lambda>(p, s). length p + length s)"
    for p :: char and ps :: string
    by simp
qed simp_all

definition like_opt :: "string \<Rightarrow> string option \<Rightarrow> bool" where
  "like_opt pat v = (case v of None \<Rightarrow> False | Some s \<Rightarrow> sql_like pat s)"

subsection \<open>User functions\<close>

definition register_user :: "datetime \<Rightarrow> db \<Rightarrow> int \<Rightarrow> string option \<Rightarrow> string option \<Rightarrow> bool \<times> db" where
  "register_user utcnow d cid uname fname =
     (if list_ex (\<lambda>u. chat_id u = cid) (users d)
      then (False,
            d\<lparr>users := map (\<lambda>u. if chat_id u = cid
                                  then u\<lparr>username := uname, first_name := fname\<rparr> else u)
                             (users d)\<rparr>)
      else (True,
            d\<lparr>users := users d @
               [\<lparr>user_pk = max_list (map user_pk (users d)) + 1, chat_id = cid,
                 username = uname, first_name = fname, digest_enabled = 1,
                 daily_quote_enabled = 1, user_created_at = sqlite_datetime utcnow\<rparr>]\<rparr>))"

subsection \<open>Quote functions\<close>

text \<open>
  \<open>save_quote\<close>: one INSERT. The new id is one more than the largest id the table has
  ever held; SQLite refuses the insert (\<open>SQLITE_FULL\<close>) once the largest 64-bit id has
  been used. \<open>tags\<close> is the list of the caller (\<open>None\<close> and the empty list take the
  same branch of \<open>if tags\<close>, so both are the empty list here). Nothing looks at the
  text: the empty string is not NULL.
\<close>

definition save_quote ::
  "datetime \<Rightarrow> db \<Rightarrow> int \<Rightarrow> string \<Rightarrow> string option \<Rightarrow> string option \<Rightarrow> string option
     \<Rightarrow> string option \<Rightarrow> string list \<Rightarrow> error + (int \<times> db)" where
  "save_quote utcnow d uid txt u title author domain tgs =
     (let tags_str = (if tgs \<noteq> [] then Some (join '','' tgs) else None);
          largest = max (quotes_seq d) (max_list (map quote_id (quotes d)))
      in if largest = max_rowid then Inl SQLITE_FULL
         else Inr (largest + 1,
                   d\<lparr>quotes := quotes d @
                        [\<lparr>quote_id = largest + 1, user_id = uid, quote_text = txt, url = u,
                          source_title = title, source_author = author,
                          source_domain = domain, tags = tags_str, is_favorite = 0,
                          times_shown = 0, last_shown = None,
                          created_at = sqlite_datetime utcnow\<rparr>],
                     quotes_seq := largest + 1\<rparr>))"

definition delete_quote :: "db \<Rightarrow> int \<Rightarrow> int \<Rightarrow> bool \<times> db" where
  "delete_quote d uid qid =
     (let rowcount = length [q \<leftarrow> quotes d. quote_id q = qid \<and> user_id q = uid]
      in (0 < rowcount,
          d\<lparr>quotes := [q \<leftarrow> quotes d. \<not> (quote_id q = qid \<and> user_id q = uid)]\<rparr>))"

definition get_quote_by_id :: "db \<Rightarrow> int \<Rightarrow> int \<Rightarrow> quote_row option" where
  "get_quote_by_id d uid qid = find (\<lambda>q. quote_id q = qid \<and> user_id q = uid) (quotes d)"

text \<open>
  The CASE expression of the spaced-repetition query. \<open>last_shown\<close> and the two
  thresholds \<open>datetime('now', '-30 days')\<close>, \<open>datetime('now', '-7 days')\<close> are compared
  as text.
\<close>

definition sr_bucket :: "datetime \<Rightarrow> quote_row \<Rightarrow> nat" where
  "sr_bucket utcnow q =
     (case last_shown q of
        None \<Rightarrow> 0
      | Some t \<Rightarrow>
          if t < sqlite_datetime (utcnow - timedelta_days 30) then 1
          else if t < sqlite_datetime (utcnow - timedelta_days 7) then 2
          else 3)"

text \<open>The first two keys of the ORDER BY clause: bucket, then \<open>times_shown\<close> ascending.\<close>

definition sr_before :: "datetime \<Rightarrow> quote_row \<Rightarrow> quote_row \<Rightarrow> bool" where
  "sr_before utcnow a b =
     (sr_bucket utcnow a < sr_bucket utcnow b
      \<or> (sr_bucket utcnow a = sr_bucket utcnow b \<and> times_shown a \<le> times_shown b))"

text \<open>
  \<open>get_random_quotes\<close>. \<open>rnd\<close> gives the value \<open>RANDOM()\<close> takes for each row, by the
  row's id; \<open>utcnow\<close> is SQLite's clock during the call. The rows are returned as they
  were read; the UPDATE (\<open>shown_at\<close> is its SET clause) then selects by id alone.
  Rows that agree on every key of the ORDER BY clause come in an order SQL leaves
  open; the model keeps them in table order.
  The UPDATE takes one statement parameter per returned row; a result longer than
  SQLite's limit on parameters makes the driver raise instead, and is not modelled.
\<close>

definition shown_at :: "datetime \<Rightarrow> quote_row \<Rightarrow> quote_row" where
  "shown_at utcnow q =
     q\<lparr>last_shown := Some (sqlite_datetime utcnow), times_shown := times_shown q + 1\<rparr>"

definition get_random_quotes ::
  "(int \<Rightarrow> int) \<Rightarrow> datetime \<Rightarrow> db \<Rightarrow> int \<Rightarrow> int \<Rightarrow> bool \<Rightarrow> quote_row list \<times> db" where
  "get_random_quotes rnd utcnow d uid n use_spaced_repetition =
     (let rows =
            (if use_spaced_repetition
             then sql_limit n
                    (sort_key (\<lambda>q. (sr_bucket utcnow q, times_shown q, rnd (quote_id q)))
                       [q \<leftarrow> quotes d. user_id q = uid])
             else sql_limit n
                    (sort_key (\<lambda>q. rnd (quote_id q)) [q \<leftarrow> quotes d. user_id q = uid]));
          quote_ids = map quote_id rows
      in if rows \<noteq> []
         then (rows,
               d\<lparr>quotes := map (\<lambda>q. if quote_id q \<in> set quote_ids then shown_at utcnow q else q)
                                 (quotes d)\<rparr>)
         else (rows, d))"

definition get_last_quotes :: "db \<Rightarrow> int \<Rightarrow> int \<Rightarrow> quote_row list" where
  "get_last_quotes d uid n =
     sql_limit n (order_by_desc created_at [q \<leftarrow> quotes d. user_id q = uid])"

definition get_quote_count :: "db \<Rightarrow> int \<Rightarrow> int" where
  "get_quote_count d uid = int (length [q \<leftarrow> quotes d. user_id q = uid])"

definition get_quotes_this_week :: "datetime \<Rightarrow> db \<Rightarrow> int \<Rightarrow> error + int" where
  "get_quotes_this_week now d uid =
     (case datetime_minus now (timedelta_days 7) of
        None \<Rightarrow> Inl OverflowError
      | Some week_ago \<Rightarrow>
          Inr (int (length [q \<leftarrow> quotes d. user_id q = uid \<and> isoformat week_ago \<le> created_at q])))"

definition search_quotes :: "db \<Rightarrow> int \<Rightarrow> string \<Rightarrow> quote_row list" where
  "search_quotes d uid keyword =
     sql_limit 10 (order_by_desc created_at
       [q \<leftarrow> quotes d. user_id q = uid \<and> sql_like (''%'' @ keyword @ ''%'') (quote_text q)])"

definition get_quotes_by_tag :: "db \<Rightarrow> int \<Rightarrow> string \<Rightarrow> quote_row list" where
  "get_quotes_by_tag d uid tag =
     sql_limit 10 (order_by_desc created_at
       [q \<leftarrow> quotes d. user_id q = uid \<and> like_opt (''%'' @ tag @ ''%'') (tags q)])"

definition get_quotes_by_source :: "db \<Rightarrow> int \<Rightarrow> string \<Rightarrow> quote_row list" where
  "get_quotes_by_source d uid domain =
     sql_limit 10 (order_by_desc created_at
       [q \<leftarrow> quotes d. user_id q = uid \<and> like_opt (''%'' @ domain @ ''%'') (source_domain q)])"

definition toggle_favorite :: "db \<Rightarrow> int \<Rightarrow> int \<Rightarrow> bool option \<times> db" where
  "toggle_favorite d uid qid =
     (case find (\<lambda>q. quote_id q = qid \<and> user_id q = uid) (quotes d) of
        None \<Rightarrow> (None, d)
      | Some row \<Rightarrow>
          (let new_status = (if is_favorite row \<noteq> 0 then 0 else 1)
           in (Some (new_status \<noteq> 0),
               d\<lparr>quotes := map (\<lambda>q. if quote_id q = qid \<and> user_id q = uid
                                      then q\<lparr>is_favorite := new_status\<rparr> else q)
                                 (quotes d)\<rparr>)))"

definition get_favorite_quotes :: "db \<Rightarrow> int \<Rightarrow> quote_row list" where
  "get_favorite_quotes d uid =
     order_by_desc created_at [q \<leftarrow> quotes d. user_id q = uid \<and> is_favorite q = 1]"

text \<open>
  \<open>get_top_tags\<close>. The dictionary \<open>tag_counts\<close> keeps its keys in insertion order, so it
  is an association list; \<open>sorted(..., reverse=True)\<close> is stable.
\<close>

fun count_tag :: "(string \<times> int) list \<Rightarrow> string \<Rightarrow> (string \<times> int) list" where
  "count_tag [] tag = [(tag, 1)]"
| "count_tag ((k, c) # rest) tag =
     (if k = tag then (k, c + 1) # rest else (k, c) # count_tag rest tag)"

definition count_row :: "(string \<times> int) list \<Rightarrow> string \<Rightarrow> (string \<times> int) list" where
  "count_row tag_counts row0 =
     (if row0 \<noteq> [] then foldl (\<lambda>acc tag. count_tag acc (strip tag)) tag_counts
                            (split_char (CHR '','') row0)
      else tag_counts)"

definition get_top_tags :: "db \<Rightarrow> int \<Rightarrow> int \<Rightarrow> (string \<times> int) list" where
  "get_top_tags d uid limit =
     (let rows = map (\<lambda>q. the (tags q)) [q \<leftarrow> quotes d. user_id q = uid \<and> tags q \<noteq> None];
          tag_counts = foldl count_row [] rows;
          sorted_tags = order_by_desc snd tag_counts
      in py_take limit sorted_tags)"

text \<open>
  \<open>is_duplicate\<close>. The cutoff is computed from Python's local clock and handed to
  SQLite in \<open>isoformat\<close>; the comparison with \<open>created_at\<close> is one of text.
\<close>

definition is_duplicate :: "datetime \<Rightarrow> db \<Rightarrow> int \<Rightarrow> string \<Rightarrow> int \<Rightarrow> error + bool" where
  "is_duplicate now d uid txt minutes =
     (case datetime_minus now (timedelta_minutes minutes) of
        None \<Rightarrow> Inl OverflowError
      | Some cutoff \<Rightarrow>
          Inr (0 < length [q \<leftarrow> quotes d.
                             user_id q = uid \<and> quote_text q = txt \<and> isoformat cutoff \<le> created_at q]))"

text \<open>\<open>export_all_quotes\<close>; \<open>json_dumps\<close> stands for \<open>json.dumps(quotes, indent=2, default=str)\<close>.\<close>

definition export_all_quotes :: "(quote_row list \<Rightarrow> string) \<Rightarrow> db \<Rightarrow> int \<Rightarrow> string" where
  "export_all_quotes json_dumps d uid =
     json_dumps (order_by_desc created_at [q \<leftarrow> quotes d. user_id q = uid])"

section \<open>The bot\<close>

text \<open>
  A handler receives the update (the chat, the sender if any, the text of the message),
  the arguments of the command, and the state it works on: the store and, for the
  handlers that use it, the sender's own \<open>context.user_data["pending_url"]\<close>. It
  returns what it sent and the state it left. An exception that leaves the handler is
  the outcome \<open>Raised\<close>; what was committed before it stays.
  The numbers a user types reach SQLite as statement parameters, and the driver
  raises \<open>OverflowError\<close> for an integer outside 64 bits before the statement runs;
  the store functions above are read on integers inside that range.
\<close>

datatype outcome = Reply string | NoReply | Raised error

record update =
  effective_chat_id :: int
  effective_user :: "(string option \<times> string option) option"
  message_text :: "string option"

record metadata =
  title :: "string option"
  author :: "string option"
  domain :: "string option"

record pending =
  pending_url :: string
  pending_metadata :: metadata
  pending_timestamp :: datetime

record parsed_message =
  parsed_url :: "string option"
  parsed_quote :: "string option"
  parsed_tags :: "string list"

definition PENDING_URL_TIMEOUT :: int where
  "PENDING_URL_TIMEOUT = 5"

text \<open>Python's truth value of an optional string: \<open>None\<close> and \<open>""\<close> are false.\<close>

definition truthy :: "string option \<Rightarrow> bool" where
  "truthy v = (case v of None \<Rightarrow> False | Some s \<Rightarrow> s \<noteq> [])"

definition sqlite_int :: "int \<Rightarrow> bool" where
  "sqlite_int v = (- 9223372036854775808 \<le> v \<and> v \<le> 9223372036854775807)"

definition ensure_registered :: "datetime \<Rightarrow> db \<Rightarrow> update \<Rightarrow> int \<times> db" where
  "ensure_registered utcnow d upd =
     (effective_chat_id upd,
      snd (register_user utcnow d (effective_chat_id upd)
             (case effective_user upd of None \<Rightarrow> None | Some usr \<Rightarrow> fst usr)
             (case effective_user upd of None \<Rightarrow> None | Some usr \<Rightarrow> snd usr)))"

definition format_quote :: "quote_row \<Rightarrow> bool \<Rightarrow> string" where
  "format_quote q show_id =
     (let prefix = (if show_id then ''[#'' @ str_int (quote_id q) @ ''] '' else []);
          fav = (if is_favorite q \<noteq> 0 then '' *'' else []);
          source_parts =
            (if truthy (source_title q) then [the (source_title q)] else [])
            @ (if truthy (source_author q) then [''by '' @ the (source_author q)]
               else if truthy (source_domain q) then [''('' @ the (source_domain q) @ '')'']
               else [])
      in prefix @ dquote @ quote_text q @ dquote @ fav
         @ (if source_parts \<noteq> [] then newline @ ''  -- '' @ join '' '' source_parts else [])
         @ (if truthy (url q) then newline @ ''  '' @ the (url q) else [])
         @ (if truthy (tags q)
            then newline @ ''  ''
                 @ join '' '' (map (\<lambda>t. CHR ''#'' # t) (split_char (CHR '','') (the (tags q))))
            else []))"

text \<open>
  \<open>/last [n]\<close>: lines 125 to 130 compute \<open>n\<close>, the rest builds the reply. The handlers
  that call \<open>int\<close> take \<open>int_outside\<close> of \<open>py_int\<close> as their first argument.
\<close>

definition last_command_n :: "(string \<Rightarrow> int option) \<Rightarrow> string list \<Rightarrow> int" where
  "last_command_n int_outside args =
     (case args of
        [] \<Rightarrow> 5
      | a # rest \<Rightarrow> (case py_int int_outside a of Some v \<Rightarrow> min v 10 | None \<Rightarrow> 5))"

definition last_command ::
  "(string \<Rightarrow> int option) \<Rightarrow> datetime \<Rightarrow> db \<Rightarrow> update \<Rightarrow> string list \<Rightarrow> outcome \<times> db" where
  "last_command int_outside utcnow d upd args =
     (let (uid, d1) = ensure_registered utcnow d upd;
          n = last_command_n int_outside args
      in if \<not> sqlite_int n then (Raised OverflowError, d1)
         else
           (let qs = get_last_quotes d1 uid n
            in if qs = [] then (Reply ''No quotes saved yet.'', d1)
               else (Reply (take 4000
                              (''Last '' @ str_int (int (length qs)) @ '' quote(s):''
                               @ newline @ newline
                               @ concat (map (\<lambda>q. format_quote q True @ newline @ newline) qs))),
                     d1)))"

definition fav_command ::
  "(string \<Rightarrow> int option) \<Rightarrow> datetime \<Rightarrow> db \<Rightarrow> update \<Rightarrow> string list \<Rightarrow> outcome \<times> db" where
  "fav_command int_outside utcnow d upd args =
     (let (uid, d1) = ensure_registered utcnow d upd
      in case args of
           [] \<Rightarrow> (Reply ''Usage: /fav <quote_id>'', d1)
         | a # rest \<Rightarrow>
             (case py_int int_outside a of
                None \<Rightarrow> (Reply ''Invalid quote ID. Use a number.'', d1)
              | Some qid \<Rightarrow>
                  if \<not> sqlite_int qid then (Raised OverflowError, d1)
                  else
                    (case toggle_favorite d1 uid qid of
                       (None, d2) \<Rightarrow> (Reply (''Quote #'' @ str_int qid @ '' not found.''), d2)
                     | (Some result, d2) \<Rightarrow>
                         (Reply (''Quote #'' @ str_int qid @ '' ''
                                 @ (if result then ''added to'' else ''removed from'')
                                 @ '' favorites.''), d2))))"

definition delete_command ::
  "(string \<Rightarrow> int option) \<Rightarrow> datetime \<Rightarrow> db \<Rightarrow> update \<Rightarrow> string list \<Rightarrow> outcome \<times> db" where
  "delete_command int_outside utcnow d upd args =
     (let (uid, d1) = ensure_registered utcnow d upd
      in case args of
           [] \<Rightarrow> (Reply ''Usage: /delete <quote_id>'', d1)
         | a # rest \<Rightarrow>
             (case py_int int_outside a of
                None \<Rightarrow> (Reply ''Invalid quote ID. Use a number.'', d1)
              | Some qid \<Rightarrow>
                  if \<not> sqlite_int qid then (Raised OverflowError, d1)
                  else
                    (case get_quote_by_id d1 uid qid of
                       None \<Rightarrow> (Reply (''Quote #'' @ str_int qid @ '' not found.''), d1)
                     | Some q \<Rightarrow>
                         (case delete_quote d1 uid qid of
                            (success, d2) \<Rightarrow>
                              if success
                              then (Reply (''Deleted quote #'' @ str_int qid @ '':'' @ newline
                                           @ dquote @ truncate_str (quote_text q) 50 @ dquote), d2)
                              else (Reply ''Failed to delete quote.'', d2)))))"

subsection \<open>The pending URL\<close>

definition get_pending_url ::
  "datetime \<Rightarrow> pending option \<Rightarrow> (string \<times> metadata) option \<times> pending option" where
  "get_pending_url now user_data =
     (case user_data of
        None \<Rightarrow> (None, user_data)
      | Some p \<Rightarrow>
          if timedelta_minutes PENDING_URL_TIMEOUT < now - pending_timestamp p
          then (None, None)
          else (Some (pending_url p, pending_metadata p), user_data))"

definition set_pending_url :: "datetime \<Rightarrow> pending option \<Rightarrow> string \<Rightarrow> metadata \<Rightarrow> pending option" where
  "set_pending_url now user_data u m =
     Some \<lparr>pending_url = u, pending_metadata = m, pending_timestamp = now\<rparr>"

definition clear_pending_url :: "pending option \<Rightarrow> pending option" where
  "clear_pending_url user_data = None"

definition cancel_command ::
  "datetime \<Rightarrow> datetime \<Rightarrow> db \<times> pending option \<Rightarrow> update \<Rightarrow> outcome \<times> (db \<times> pending option)" where
  "cancel_command utcnow now st upd =
     (let (uid, d1) = ensure_registered utcnow (fst st) upd
      in case get_pending_url now (snd st) of
           (Some p, ud) \<Rightarrow> (Reply ''Pending URL cleared.'', (d1, clear_pending_url ud))
         | (None, ud) \<Rightarrow> (Reply ''Nothing to cancel.'', (d1, ud)))"

subsection \<open>Free text\<close>

text \<open>
  \<open>handle_message\<close>. \<open>parse_message\<close> (\<open>src/parser.py\<close>) and \<open>fetch_metadata\<close>
  (\<open>src/metadata.py\<close>) are parameters. \<open>utcnow\<close> is SQLite's clock and \<open>now\<close> is
  \<open>datetime.now()\<close>.
\<close>

definition saved_response :: "int \<Rightarrow> parsed_message \<Rightarrow> metadata \<Rightarrow> string" where
  "saved_response qid parsed m =
     ''Saved (#'' @ str_int qid @ ''): '' @ dquote @ truncate_str (the (parsed_quote parsed)) 100 @ dquote
     @ (if truthy (title m) \<or> truthy (domain m)
        then newline @ ''From: ''
             @ (if truthy (title m) then the (title m) else the (domain m))
             @ (if truthy (author m) then '' by '' @ the (author m)
                else if truthy (domain m) \<and> truthy (title m) then '' ('' @ the (domain m) @ '')''
                else [])
        else [])
     @ (if parsed_tags parsed \<noteq> []
        then newline @ ''Tags: '' @ join '' '' (map (\<lambda>t. CHR ''#'' # t) (parsed_tags parsed))
        else [])"

definition got_link_response :: "metadata \<Rightarrow> string" where
  "got_link_response m =
     ''Got the link!''
     @ (if truthy (title m)
        then newline @ dquote @ the (title m) @ dquote
             @ (if truthy (domain m) then '' ('' @ the (domain m) @ '')'' else [])
        else if truthy (domain m) then newline @ ''('' @ the (domain m) @ '')''
        else [])
     @ newline @ newline @ ''Now send me the quote from this article.'' @ newline
     @ ''(Link expires in '' @ str_int PENDING_URL_TIMEOUT @ '' min, /cancel to clear)''"

definition no_metadata :: metadata where
  "no_metadata = \<lparr>title = None, author = None, domain = None\<rparr>"

definition handle_message ::
  "(string \<Rightarrow> parsed_message) \<Rightarrow> (string \<Rightarrow> metadata) \<Rightarrow> datetime \<Rightarrow> datetime
     \<Rightarrow> db \<times> pending option \<Rightarrow> update \<Rightarrow> outcome \<times> (db \<times> pending option)" where
  "handle_message parse_message fetch_metadata utcnow now st upd =
     (let (uid, d1) = ensure_registered utcnow (fst st) upd;
          user_data = snd st
      in if \<not> truthy (message_text upd) then (NoReply, (d1, user_data))
         else
           (let parsed = parse_message (the (message_text upd))
            in if truthy (parsed_url parsed) \<and> \<not> truthy (parsed_quote parsed)
               then (let m = fetch_metadata (the (parsed_url parsed))
                     in (Reply (got_link_response m),
                         (d1, set_pending_url now user_data (the (parsed_url parsed))
                                \<lparr>title = title m, author = author m, domain = domain m\<rparr>)))
               else if \<not> truthy (parsed_quote parsed)
               then (Reply ''I couldn't find a quote in your message. Send me some text to save!'',
                     (d1, user_data))
               else
                 (case is_duplicate now d1 uid (the (parsed_quote parsed)) 1 of
                    Inl e \<Rightarrow> (Raised e, (d1, user_data))
                  | Inr True \<Rightarrow> (Reply ''This quote was already saved recently.'', (d1, user_data))
                  | Inr False \<Rightarrow>
                      (let (u, m, ud) =
                             (if truthy (parsed_url parsed)
                              then (parsed_url parsed, fetch_metadata (the (parsed_url parsed)),
                                    clear_pending_url user_data)
                              else (case get_pending_url now user_data of
                                      (Some p, ud1) \<Rightarrow> (Some (fst p), snd p, clear_pending_url ud1)
                                    | (None, ud1) \<Rightarrow> (parsed_url parsed, no_metadata, ud1)))
                       in case save_quote utcnow d1 uid (the (parsed_quote parsed)) u
                                 (title m) (author m) (domain m) (parsed_tags parsed) of
                            Inl e \<Rightarrow> (Raised e, (d1, ud))
                          | Inr (qid, d2) \<Rightarrow> (Reply (saved_response qid parsed m), (d2, ud))))))"

section \<open>The store functions as one interface\<close>

text \<open>
  Every quote function of \<open>database.py\<close> takes the requesting user's id first. To speak
  about all of them at once, a call is a value of \<open>store_op\<close> and \<open>store_call\<close> runs it
  for a user; the clocks, the values of \<open>RANDOM()\<close> and \<open>json.dumps\<close> are passed along.
\<close>

datatype store_op =
    Save_quote string "string option" "string option" "string option" "string option" "string list"
  | Delete_quote int
  | Get_quote_by_id int
  | Get_random_quotes int bool
  | Get_last_quotes int
  | Get_quote_count
  | Get_quotes_this_week
  | Search_quotes string
  | Get_quotes_by_tag string
  | Get_quotes_by_source string
  | Toggle_favorite int
  | Get_favorite_quotes
  | Get_top_tags int
  | Is_duplicate string int
  | Export_all_quotes

datatype result =
    Failed error
  | New_id int
  | Flag bool
  | Maybe_flag "bool option"
  | Maybe_row "quote_row option"
  | Rows "quote_row list"
  | Count int
  | Tag_counts "(string \<times> int) list"
  | Json string

fun store_call ::
  "(int \<Rightarrow> int) \<Rightarrow> datetime \<Rightarrow> datetime \<Rightarrow> (quote_row list \<Rightarrow> string)
     \<Rightarrow> db \<Rightarrow> int \<Rightarrow> store_op \<Rightarrow> result \<times> db" where
  "store_call rnd utcnow now dumps d uid (Save_quote txt u ti au dm tgs) =
     (case save_quote utcnow d uid txt u ti au dm tgs of
        Inl e \<Rightarrow> (Failed e, d)
      | Inr r \<Rightarrow> (New_id (fst r), snd r))"
| "store_call rnd utcnow now dumps d uid (Delete_quote qid) =
     (Flag (fst (delete_quote d uid qid)), snd (delete_quote d uid qid))"
| "store_call rnd utcnow now dumps d uid (Get_quote_by_id qid) =
     (Maybe_row (get_quote_by_id d uid qid), d)"
| "store_call rnd utcnow now dumps d uid (Get_random_quotes n sr) =
     (Rows (fst (get_random_quotes rnd utcnow d uid n sr)),
      snd (get_random_quotes rnd utcnow d uid n sr))"
| "store_call rnd utcnow now dumps d uid (Get_last_quotes n) = (Rows (get_last_quotes d uid n), d)"
| "store_call rnd utcnow now dumps d uid Get_quote_count = (Count (get_quote_count d uid), d)"
| "store_call rnd utcnow now dumps d uid Get_quotes_this_week =
     (case get_quotes_this_week now d uid of Inl e \<Rightarrow> (Failed e, d) | Inr c \<Rightarrow> (Count c, d))"
| "store_call rnd utcnow now dumps d uid (Search_quotes keyword) =
     (Rows (search_quotes d uid keyword), d)"
| "store_call rnd utcnow now dumps d uid (Get_quotes_by_tag tag) =
     (Rows (get_quotes_by_tag d uid tag), d)"
| "store_call rnd utcnow now dumps d uid (Get_quotes_by_source dm) =
     (Rows (get_quotes_by_source d uid dm), d)"
| "store_call rnd utcnow now dumps d uid (Toggle_favorite qid) =
     (Maybe_flag (fst (toggle_favorite d uid qid)), snd (toggle_favorite d uid qid))"
| "store_call rnd utcnow now dumps d uid Get_favorite_quotes = (Rows (get_favorite_quotes d uid), d)"
| "store_call rnd utcnow now dumps d uid (Get_top_tags limit) =
     (Tag_counts (get_top_tags d uid limit), d)"
| "store_call rnd utcnow now dumps d uid (Is_duplicate txt minutes) =
     (case is_duplicate now d uid txt minutes of Inl e \<Rightarrow> (Failed e, d) | Inr b \<Rightarrow> (Flag b, d))"
| "store_call rnd utcnow now dumps d uid Export_all_quotes = (Json (export_all_quotes dumps d uid), d)"

fun is_save :: "store_op \<Rightarrow> bool" where
  "is_save (Save_quote txt u ti au dm tgs) = True"
| "is_save other = False"

text \<open>
  A run of calls, each by some user at its own reading of the clocks, and the
  identifiers its saves returned.
\<close>

record request =
  request_rnd :: "int \<Rightarrow> int"
  request_utcnow :: datetime
  request_now :: datetime
  request_user :: int
  request_op :: store_op

definition store_request :: "(quote_row list \<Rightarrow> string) \<Rightarrow> db \<Rightarrow> request \<Rightarrow> result \<times> db" where
  "store_request dumps d c =
     store_call (request_rnd c) (request_utcnow c) (request_now c) dumps d
       (request_user c) (request_op c)"

fun store_calls :: "(quote_row list \<Rightarrow> string) \<Rightarrow> db \<Rightarrow> request list \<Rightarrow> result list \<times> db" where
  "store_calls dumps d [] = ([], d)"
| "store_calls dumps d (c # cs) =
     (let r = store_request dumps d c;
          rest = store_calls dumps (snd r) cs
      in (fst r # fst rest, snd rest))"

fun new_ids :: "result list \<Rightarrow> int list" where
  "new_ids [] = []"
| "new_ids (New_id i # rs) = i # new_ids rs"
| "new_ids (r # rs) = new_ids rs"

text \<open>
  What SQLite keeps true of the table: \<open>id\<close> is its primary key, and the
  \<open>AUTOINCREMENT\<close> counter is never below an id in use.
\<close>

definition primary_key :: "db \<Rightarrow> bool" where
  "primary_key d = distinct (map quote_id (quotes d))"

definition sequence_ok :: "db \<Rightarrow> bool" where
  "sequence_ok d = (0 \<le> quotes_seq d \<and> list_all (\<lambda>q. quote_id q \<le> quotes_seq d) (quotes d))"

text \<open>The rows of one user, and the rows of everybody else.\<close>

definition rows_of :: "db \<Rightarrow> int \<Rightarrow> quote_row list" where
  "rows_of d uid = [q \<leftarrow> quotes d. user_id q = uid]"

definition rows_of_others :: "db \<Rightarrow> int \<Rightarrow> quote_row list" where
  "rows_of_others d uid = [q \<leftarrow> quotes d. user_id q \<noteq> uid]"

section \<open>States and clocks used in the examples\<close>

definition noon :: datetime where
  "noon = mk_datetime 2024 1 1 12 0 0 0"

definition mk_row :: "int \<Rightarrow> int \<Rightarrow> string \<Rightarrow> int \<Rightarrow> string option \<Rightarrow> string \<Rightarrow> quote_row" where
  "mk_row qid uid txt shown seen created =
     \<lparr>quote_id = qid, user_id = uid, quote_text = txt, url = None, source_title = None,
      source_author = None, source_domain = None, tags = None, is_favorite = 0,
      times_shown = shown, last_shown = seen, created_at = created\<rparr>"

definition empty_db :: db where
  "empty_db = \<lparr>users = [], quotes = [], quotes_seq = 0\<rparr>"

text \<open>Four quotes of user 1, one in each bucket at \<open>noon\<close>, and one quote of user 2.\<close>

definition shelf :: db where
  "shelf =
     \<lparr>users = [],
      quotes =
        [mk_row 1 1 ''alpha'' 1 (Some ''2023-12-30 09:00:00'') ''2023-10-01 08:00:00'',
         mk_row 2 1 ''beta'' 0 None ''2023-10-02 08:00:00'',
         mk_row 3 1 ''gamma'' 2 (Some ''2023-11-01 00:00:00'') ''2023-10-03 08:00:00'',
         mk_row 4 1 ''delta'' 5 (Some ''2023-12-10 00:00:00'') ''2023-10-04 08:00:00'',
         mk_row 5 2 ''other'' 0 None ''2023-10-05 08:00:00''],
      quotes_seq = 5\<rparr>"

definition sender :: "int \<Rightarrow> string option \<Rightarrow> update" where
  "sender cid txt = \<lparr>effective_chat_id = cid, effective_user = None, message_text = txt\<rparr>"

text \<open>A store holding one quote, of user 2; and a store with eleven quotes of user 1.\<close>

definition lone_db :: db where
  "lone_db =
     \<lparr>users = [], quotes = [mk_row 1 2 ''other'' 0 None ''2023-10-05 08:00:00''], quotes_seq = 1\<rparr>"

definition eleven :: db where
  "eleven =
     \<lparr>users = [],
      quotes = map (\<lambda>i. mk_row i 1 ''q'' 0 None ''2023-10-01 08:00:00'')
                 [1, 2, 3, 4, 5, 6, 7, 8, 9, 10, 11],
      quotes_seq = 11\<rparr>"

text \<open>
  An evening west of Greenwich: SQLite's clock reads 2024-01-02 01:00:00 (UTC) while
  \<open>datetime.now()\<close> reads 2024-01-01 20:00:00. User 1 saved a quote half a minute ago
  and has a pending URL that is two minutes old.
\<close>

definition evening_utc :: datetime where
  "evening_utc = mk_datetime 2024 1 2 1 0 0 0"

definition evening_local :: datetime where
  "evening_local = mk_datetime 2024 1 1 20 0 0 0"

definition evening_db :: db where
  "evening_db =
     \<lparr>users = [], quotes = [mk_row 1 1 ''same text'' 0 None ''2024-01-02 00:59:30''], quotes_seq = 1\<rparr>"

definition example_pending :: pending where
  "example_pending =
     \<lparr>pending_url = ''https://example.com'',
      pending_metadata = \<lparr>title = Some ''Article'', author = None, domain = Some ''example.com''\<rparr>,
      pending_timestamp = evening_local - timedelta_minutes 2\<rparr>"

text \<open>Three hours later on the same evening, by the local clock.\<close>

definition late_evening_local :: datetime where
  "late_evening_local = mk_datetime 2024 1 1 23 0 0 0"

text \<open>
  The UTF-8 bytes of the fullwidth digit one (U+FF11), and a stand-in for \<open>int\<close>
  outside ASCII that reads this one string as 1 and refuses every other.
\<close>

definition fullwidth_one :: string where
  "fullwidth_one = [CHR 0xEF, CHR 0xBC, CHR 0x91]"

definition fullwidth_int :: "string \<Rightarrow> int option" where
  "fullwidth_int s = (if s = fullwidth_one then Some 1 else None)"

text \<open>A request made at \<open>noon\<close> plus some seconds, on both clocks.\<close>

definition at_noon_plus :: "int \<Rightarrow> int \<Rightarrow> store_op \<Rightarrow> request" where
  "at_noon_plus secs uid op =
     \<lparr>request_rnd = (\<lambda>i. 0), request_utcnow = noon + secs * 1000000,
      request_now = noon + secs * 1000000, request_user = uid, request_op = op\<rparr>"

text \<open>A stand-in for \<open>parse_message\<close> that takes the whole text as the quote.\<close>

definition quote_only :: "string \<Rightarrow> parsed_message" where
  "quote_only s = \<lparr>parsed_url = None, parsed_quote = Some s, parsed_tags = []\<rparr>"

section \<open>Facts about lists and identifiers\<close>

lemma max_list_ge: "x \<in> set xs \<Longrightarrow> x \<le> max_list xs"
  unfolding max_list_def by (induction xs) auto

lemma max_list_nonneg: "0 \<le> max_list xs"
  unfolding max_list_def by (induction xs) auto

lemma max_list_le: "0 \<le> s \<Longrightarrow> list_all (\<lambda>x. x \<le> s) xs \<Longrightarrow> max_list xs \<le> s"
  unfolding max_list_def by (induction xs) auto

lemma fresh_id: "max s (max_list (map quote_id xs)) + 1 \<notin> quote_id ` set xs"
proof
  assume "max s (max_list (map quote_id xs)) + 1 \<in> quote_id ` set xs"
  then have "max s (max_list (map quote_id xs)) + 1 \<in> set (map quote_id xs)" by simp
  then have "max s (max_list (map quote_id xs)) + 1 \<le> max_list (map quote_id xs)"
    by (rule max_list_ge)
  then show False by simp
qed

lemma selected_in:
  "q \<in> set (sql_limit n (sort_key k xs)) \<Longrightarrow> q \<in> set xs"
  unfolding sql_limit_def by (auto dest: in_set_takeD split: if_splits)

lemma sql_limit_length:
  "length (sql_limit n xs) = (if n < 0 then length xs else min (nat n) (length xs))"
  by (auto simp: sql_limit_def)

lemma sql_limit_split:
  "\<exists>rest. xs = sql_limit n xs @ rest"
  unfolding sql_limit_def by (cases "n < 0") (simp, metis append_take_drop_id)

lemma left_out_not_before:
  assumes s: "sorted_wrt R xs" and r: "r \<in> set (sql_limit n xs)"
    and q: "q \<in> set xs" "q \<notin> set (sql_limit n xs)"
  shows "R r q"
proof -
  obtain rest where split: "xs = sql_limit n xs @ rest"
    using sql_limit_split by blast
  with q have "q \<in> set rest" by (metis Un_iff set_append)
  moreover from s split have "sorted_wrt R (sql_limit n xs @ rest)" by simp
  ultimately show ?thesis using r by (simp add: sorted_wrt_append)
qed

lemma id_in_rows_iff:
  assumes dist: "distinct (map quote_id xs)"
    and sub: "set rows \<subseteq> set xs"
    and q: "q \<in> set xs"
  shows "quote_id q \<in> quote_id ` set rows \<longleftrightarrow> q \<in> set rows"
proof
  assume "quote_id q \<in> quote_id ` set rows"
  then obtain r where r: "r \<in> set rows" "quote_id r = quote_id q" by auto
  from dist have "inj_on quote_id (set xs)" by (simp add: distinct_map)
  with r sub q have "r = q" by (auto dest: inj_onD)
  with r show "q \<in> set rows" by simp
next
  assume "q \<in> set rows"
  then show "quote_id q \<in> quote_id ` set rows" by simp
qed

lemma ids_kept:
  "(\<And>q. quote_id (f q) = quote_id q) \<Longrightarrow> map quote_id (map f xs) = map quote_id xs"
  by simp

lemma others_map:
  assumes "\<And>q. q \<in> set xs \<Longrightarrow> user_id q \<noteq> uid \<Longrightarrow> f q = q"
    and "\<And>q. q \<in> set xs \<Longrightarrow> user_id q = uid \<Longrightarrow> user_id (f q) = uid"
  shows "[q \<leftarrow> map f xs. user_id q \<noteq> uid] = [q \<leftarrow> xs. user_id q \<noteq> uid]"
  using assms by (induction xs) auto

lemma append_le_cancel: "(xs @ ys \<le> xs @ zs) = (ys \<le> (zs :: string))"
  by (induction xs) simp_all

section \<open>Facts about the store functions\<close>

subsection \<open>What \<open>get_random_quotes\<close> returns and writes\<close>

lemma get_random_quotes_rows:
  "fst (get_random_quotes rnd utcnow d uid n sr) =
     (if sr then sql_limit n (sort_key (\<lambda>q. (sr_bucket utcnow q, times_shown q, rnd (quote_id q)))
                               (rows_of d uid))
      else sql_limit n (sort_key (\<lambda>q. rnd (quote_id q)) (rows_of d uid)))"
  by (simp add: get_random_quotes_def Let_def rows_of_def)

lemma get_random_quotes_rows_mine:
  "q \<in> set (fst (get_random_quotes rnd utcnow d uid n sr)) \<Longrightarrow> q \<in> set (rows_of d uid)"
  unfolding get_random_quotes_rows by (auto dest: selected_in split: if_splits)

lemma get_random_quotes_post:
  "snd (get_random_quotes rnd utcnow d uid n sr) =
     d\<lparr>quotes := map (\<lambda>q. if quote_id q \<in> quote_id ` set (fst (get_random_quotes rnd utcnow d uid n sr))
                           then shown_at utcnow q else q) (quotes d)\<rparr>"
  by (simp add: get_random_quotes_def Let_def)

lemma get_random_quotes_keeps:
  "users (snd (get_random_quotes rnd utcnow d uid n sr)) = users d"
  "quotes_seq (snd (get_random_quotes rnd utcnow d uid n sr)) = quotes_seq d"
  by (simp_all add: get_random_quotes_post)

lemma shown_at_fields [simp]:
  "quote_id (shown_at utcnow q) = quote_id q"
  "user_id (shown_at utcnow q) = user_id q"
  "times_shown (shown_at utcnow q) = times_shown q + 1"
  "last_shown (shown_at utcnow q) = Some (sqlite_datetime utcnow)"
  by (simp_all add: shown_at_def)

lemma get_random_quotes_others:
  assumes pk: "primary_key d"
  shows "rows_of_others (snd (get_random_quotes rnd utcnow d uid n sr)) uid = rows_of_others d uid"
proof -
  let ?rows = "fst (get_random_quotes rnd utcnow d uid n sr)"
  from pk have dist: "distinct (map quote_id (quotes d))" by (simp add: primary_key_def)
  have sub: "set ?rows \<subseteq> set (quotes d)"
    by (auto dest: get_random_quotes_rows_mine simp: rows_of_def)
  have mine: "\<And>q. q \<in> set ?rows \<Longrightarrow> user_id q = uid"
    by (auto dest: get_random_quotes_rows_mine simp: rows_of_def)
  show ?thesis
    unfolding rows_of_others_def get_random_quotes_post
  proof (simp, rule others_map)
    fix q assume q: "q \<in> set (quotes d)" and other: "user_id q \<noteq> uid"
    from other mine have "q \<notin> set ?rows" by blast
    with id_in_rows_iff [OF dist sub q]
    show "(if quote_id q \<in> quote_id ` set ?rows then shown_at utcnow q else q) = q" by simp
  next
    fix q assume "q \<in> set (quotes d)" and "user_id q = uid"
    then show "user_id (if quote_id q \<in> quote_id ` set ?rows then shown_at utcnow q else q) = uid"
      by simp
  qed
qed

subsection \<open>The id counter along a run of calls\<close>

lemma largest_id:
  "sequence_ok d \<Longrightarrow> max (quotes_seq d) (max_list (map quote_id (quotes d))) = quotes_seq d"
proof -
  assume ok: "sequence_ok d"
  then have "list_all (\<lambda>x. x \<le> quotes_seq d) (map quote_id (quotes d))"
    by (simp add: sequence_ok_def list_all_iff)
  with ok have "max_list (map quote_id (quotes d)) \<le> quotes_seq d"
    by (intro max_list_le) (simp_all add: sequence_ok_def)
  then show ?thesis by simp
qed

lemma save_quote_sequence:
  assumes ok: "sequence_ok d"
    and saved: "save_quote utcnow d uid txt u ti au dm tgs = Inr (rid, d')"
  shows "rid = quotes_seq d + 1 \<and> quotes_seq d' = rid \<and> sequence_ok d'"
proof -
  have l: "max (quotes_seq d) (max_list (map quote_id (quotes d))) = quotes_seq d"
    using ok by (rule largest_id)
  from saved have rid: "rid = quotes_seq d + 1"
    and d': "quotes d' = quotes d @ [\<lparr>quote_id = quotes_seq d + 1, user_id = uid, quote_text = txt,
               url = u, source_title = ti, source_author = au, source_domain = dm,
               tags = (if tgs \<noteq> [] then Some (join '','' tgs) else None), is_favorite = 0,
               times_shown = 0, last_shown = None, created_at = sqlite_datetime utcnow\<rparr>]"
    and seq: "quotes_seq d' = quotes_seq d + 1"
    by (auto simp: save_quote_def Let_def l split: if_splits)
  have "sequence_ok d'"
    using ok unfolding sequence_ok_def d' seq by (auto simp: list_all_iff)
  with rid seq show ?thesis by simp
qed

lemma store_call_sequence:
  assumes ok: "sequence_ok d"
  shows "sequence_ok (snd (store_call rnd utcnow now dumps d uid op))
         \<and> quotes_seq d \<le> quotes_seq (snd (store_call rnd utcnow now dumps d uid op))
         \<and> (\<forall>i. fst (store_call rnd utcnow now dumps d uid op) = New_id i \<longrightarrow>
                quotes_seq d < i \<and> i \<le> quotes_seq (snd (store_call rnd utcnow now dumps d uid op)))"
proof (cases op)
  case (Save_quote tx u ti au dm tgs)
  show ?thesis
  proof (cases "save_quote utcnow d uid tx u ti au dm tgs")
    case (Inl e)
    with Save_quote ok show ?thesis by simp
  next
    case (Inr r)
    then have "save_quote utcnow d uid tx u ti au dm tgs = Inr (fst r, snd r)" by simp
    from save_quote_sequence [OF ok this] Save_quote Inr show ?thesis by simp
  qed
next
  case (Delete_quote qid)
  with ok show ?thesis
    by (auto simp: delete_quote_def Let_def sequence_ok_def list_all_iff)
next
  case (Get_random_quotes n sr)
  with ok show ?thesis
    by (auto simp: get_random_quotes_post sequence_ok_def list_all_iff)
next
  case (Toggle_favorite qid)
  with ok show ?thesis
    by (auto simp: toggle_favorite_def Let_def sequence_ok_def list_all_iff split: option.splits)
next
  case Get_quotes_this_week
  with ok show ?thesis by (simp split: sum.splits)
next
  case (Is_duplicate tx m)
  with ok show ?thesis by (simp split: sum.splits)
qed (use ok in simp_all)

lemma new_ids_increase:
  assumes ok: "sequence_ok d"
  shows "sorted_wrt (<) (new_ids (fst (store_calls dumps d calls)))
         \<and> (\<forall>i \<in> set (new_ids (fst (store_calls dumps d calls))). quotes_seq d < i)"
  using ok
proof (induction calls arbitrary: d)
  case Nil
  then show ?case by simp
next
  case (Cons c cs)
  let ?r = "store_request dumps d c"
  let ?rest = "new_ids (fst (store_calls dumps (snd ?r) cs))"
  from store_call_sequence [OF Cons.prems]
  have ok': "sequence_ok (snd ?r)" and mono: "quotes_seq d \<le> quotes_seq (snd ?r)"
    and fresh: "\<And>i. fst ?r = New_id i \<Longrightarrow> quotes_seq d < i \<and> i \<le> quotes_seq (snd ?r)"
    unfolding store_request_def by blast+
  from Cons.IH [OF ok']
  have ih1: "sorted_wrt (<) ?rest" and ih2: "\<forall>i \<in> set ?rest. quotes_seq (snd ?r) < i"
    by blast+
  show ?case
  proof (cases "fst ?r")
    case (New_id i)
    with fresh have "quotes_seq d < i" "i \<le> quotes_seq (snd ?r)" by blast+
    with ih1 ih2 mono New_id show ?thesis by (auto simp: Let_def)
  qed (use ih1 ih2 mono in \<open>auto simp: Let_def\<close>)
qed

subsection \<open>Each function reads the requester's rows only\<close>

lemma filter_mine:
  "[q \<leftarrow> quotes d. user_id q = uid \<and> P q] = [q \<leftarrow> rows_of d uid. P q]"
  by (simp add: rows_of_def)

lemma find_mine:
  "find (\<lambda>q. quote_id q = qid \<and> user_id q = uid) xs
     = find (\<lambda>q. quote_id q = qid) [q \<leftarrow> xs. user_id q = uid]"
  by (induction xs) auto

lemma get_quote_by_id_mine:
  "get_quote_by_id d uid qid = find (\<lambda>q. quote_id q = qid) (rows_of d uid)"
  by (simp add: get_quote_by_id_def find_mine rows_of_def)

lemma delete_quote_mine:
  "fst (delete_quote d uid qid) = (0 < length [q \<leftarrow> rows_of d uid. quote_id q = qid])"
  by (simp add: delete_quote_def Let_def rows_of_def conj_commute)

lemma get_last_quotes_mine:
  "get_last_quotes d uid n = sql_limit n (order_by_desc created_at (rows_of d uid))"
  by (simp add: get_last_quotes_def rows_of_def)

lemma get_quote_count_mine:
  "get_quote_count d uid = int (length (rows_of d uid))"
  by (simp add: get_quote_count_def rows_of_def)

lemma get_quotes_this_week_mine:
  "get_quotes_this_week now d uid =
     (case datetime_minus now (timedelta_days 7) of
        None \<Rightarrow> Inl OverflowError
      | Some week_ago \<Rightarrow>
          Inr (int (length [q \<leftarrow> rows_of d uid. isoformat week_ago \<le> created_at q])))"
  by (simp add: get_quotes_this_week_def filter_mine split: option.splits)

lemma search_quotes_mine:
  "search_quotes d uid keyword =
     sql_limit 10 (order_by_desc created_at
       [q \<leftarrow> rows_of d uid. sql_like (''%'' @ keyword @ ''%'') (quote_text q)])"
  by (simp only: search_quotes_def filter_mine)

lemma get_quotes_by_tag_mine:
  "get_quotes_by_tag d uid tag =
     sql_limit 10 (order_by_desc created_at
       [q \<leftarrow> rows_of d uid. like_opt (''%'' @ tag @ ''%'') (tags q)])"
  by (simp only: get_quotes_by_tag_def filter_mine)

lemma get_quotes_by_source_mine:
  "get_quotes_by_source d uid dm =
     sql_limit 10 (order_by_desc created_at
       [q \<leftarrow> rows_of d uid. like_opt (''%'' @ dm @ ''%'') (source_domain q)])"
  by (simp only: get_quotes_by_source_def filter_mine)

lemma toggle_favorite_mine:
  "fst (toggle_favorite d uid qid) =
     (case find (\<lambda>q. quote_id q = qid) (rows_of d uid) of
        None \<Rightarrow> None
      | Some row \<Rightarrow> Some (is_favorite row = 0))"
  by (simp add: toggle_favorite_def find_mine rows_of_def Let_def split: option.splits)

lemma get_favorite_quotes_mine:
  "get_favorite_quotes d uid = order_by_desc created_at [q \<leftarrow> rows_of d uid. is_favorite q = 1]"
  by (simp only: get_favorite_quotes_def filter_mine)

lemma get_top_tags_mine:
  "get_top_tags d uid limit =
     py_take limit (order_by_desc snd
       (foldl count_row [] (map (\<lambda>q. the (tags q)) [q \<leftarrow> rows_of d uid. tags q \<noteq> None])))"
  by (simp only: get_top_tags_def filter_mine Let_def)

lemma is_duplicate_mine:
  "is_duplicate now d uid tx minutes =
     (case datetime_minus now (timedelta_minutes minutes) of
        None \<Rightarrow> Inl OverflowError
      | Some cutoff \<Rightarrow>
          Inr (0 < length [q \<leftarrow> rows_of d uid. quote_text q = tx \<and> isoformat cutoff \<le> created_at q]))"
  by (simp add: is_duplicate_def rows_of_def split: option.splits)

lemma export_all_quotes_mine:
  "export_all_quotes dumps d uid = dumps (order_by_desc created_at (rows_of d uid))"
  by (simp add: export_all_quotes_def rows_of_def)

lemmas reads_mine =
  get_quote_by_id_mine delete_quote_mine get_random_quotes_rows get_last_quotes_mine
  get_quote_count_mine get_quotes_this_week_mine search_quotes_mine get_quotes_by_tag_mine
  get_quotes_by_source_mine toggle_favorite_mine get_favorite_quotes_mine get_top_tags_mine
  is_duplicate_mine export_all_quotes_mine

lemma store_call_reads_mine:
  assumes same: "rows_of d2 uid = rows_of d uid"
    and op: "\<not> is_save op"
  shows "fst (store_call rnd utcnow now dumps d2 uid op) = fst (store_call rnd utcnow now dumps d uid op)"
  using op by (cases op) (simp_all add: reads_mine same split: sum.splits option.splits)

subsection \<open>Each function writes the requester's rows only\<close>

lemma store_call_others:
  assumes pk: "primary_key d"
  shows "rows_of_others (snd (store_call rnd utcnow now dumps d uid op)) uid = rows_of_others d uid"
proof (cases op)
  case (Save_quote tx u ti au dm tgs)
  then show ?thesis
    by (auto simp: save_quote_def Let_def rows_of_others_def split: sum.splits if_splits)
next
  case (Delete_quote qid)
  then show ?thesis
    by (auto simp: delete_quote_def Let_def rows_of_others_def intro: filter_cong)
next
  case (Get_random_quotes n sr)
  with get_random_quotes_others [OF pk] show ?thesis by simp
next
  case (Toggle_favorite qid)
  then show ?thesis
    by (auto simp: toggle_favorite_def Let_def rows_of_others_def split: option.splits
          intro!: others_map)
qed (simp_all split: sum.splits)

lemma store_call_primary_key:
  assumes pk: "primary_key d"
  shows "primary_key (snd (store_call rnd utcnow now dumps d uid op))"
proof (cases op)
  case (Save_quote tx u ti au dm tgs)
  with pk fresh_id [of "quotes_seq d" "quotes d"] show ?thesis
    by (auto simp: save_quote_def Let_def primary_key_def split: if_splits)
next
  case (Delete_quote qid)
  with pk show ?thesis
    by (simp add: delete_quote_def Let_def primary_key_def distinct_map_filter)
next
  case (Get_random_quotes n sr)
  have "map quote_id (quotes (snd (get_random_quotes rnd utcnow d uid n sr))) = map quote_id (quotes d)"
    unfolding get_random_quotes_post by (simp add: ids_kept)
  with pk Get_random_quotes show ?thesis by (simp add: primary_key_def)
next
  case (Toggle_favorite qid)
  have "map quote_id (quotes (snd (toggle_favorite d uid qid))) = map quote_id (quotes d)"
    by (simp add: toggle_favorite_def Let_def ids_kept split: option.splits)
  with pk Toggle_favorite show ?thesis by (simp add: primary_key_def)
qed (use pk in \<open>simp_all split: sum.splits\<close>)

subsection \<open>What \<open>/last\<close> does keep\<close>

lemma get_last_quotes_newest_first:
  "sorted_wrt (\<lambda>a b. created_at b \<le> created_at a) (get_last_quotes d uid n)"
proof -
  let ?xs = "rev (rows_of d uid)"
  have "sorted (map created_at (sort_key created_at ?xs))" by (rule sorted_sort_key)
  then have "sorted_wrt (\<lambda>a b. created_at a \<le> created_at b) (sort_key created_at ?xs)"
    by (simp add: sorted_map)
  then have "sorted_wrt (\<lambda>a b. created_at b \<le> created_at a) (order_by_desc created_at (rows_of d uid))"
    by (simp add: order_by_desc_def sorted_wrt_rev)
  then show ?thesis
    by (simp add: get_last_quotes_mine sql_limit_def sorted_wrt_take)
qed

lemma last_command_n_at_most_10: "last_command_n int_outside args \<le> 10"
  by (simp add: last_command_n_def split: list.splits option.splits)

lemma last_command_capped:
  "0 \<le> last_command_n int_outside args \<Longrightarrow> length (get_last_quotes d uid (last_command_n int_outside args)) \<le> 10"
  using last_command_n_at_most_10 [of int_outside args] by (simp add: get_last_quotes_def sql_limit_def)

lemma last_command_default: "length (get_last_quotes d uid (last_command_n int_outside [])) \<le> 5"
  by (simp add: last_command_n_def get_last_quotes_def sql_limit_def)

subsection \<open>The cutoff of \<open>is_duplicate\<close> against \<open>created_at\<close>\<close>

lemma isoformat_above_same_day:
  assumes "date_part c = date_part k"
  shows "\<not> isoformat k \<le> sqlite_datetime c"
proof -
  have "isoformat k = date_part c @ (CHR ''T'' # time_part k
          @ (if k mod 1000000 = 0 then [] else ''.'' @ zpad 6 (nat (k mod 1000000))))"
    using assms by (simp add: isoformat_def)
  moreover have "sqlite_datetime c = date_part c @ (CHR '' '' # time_part c)"
    by (simp add: sqlite_datetime_def)
  ultimately show ?thesis
    by (simp only: append_le_cancel) (simp add: less_char_def)
qed

lemma is_duplicate_same_day:
  assumes cut: "datetime_minus now (timedelta_minutes minutes) = Some cutoff"
    and same: "\<And>q. q \<in> set (rows_of d uid) \<Longrightarrow> quote_text q = tx \<Longrightarrow>
                 \<exists>c. created_at q = sqlite_datetime c \<and> date_part c = date_part cutoff"
  shows "is_duplicate now d uid tx minutes = Inr False"
proof -
  have "[q \<leftarrow> rows_of d uid. quote_text q = tx \<and> isoformat cutoff \<le> created_at q] = []"
  proof (simp only: filter_empty_conv, intro ballI notI)
    fix q assume q: "q \<in> set (rows_of d uid)"
      and hit: "quote_text q = tx \<and> isoformat cutoff \<le> created_at q"
    from same [OF q] hit obtain c where "created_at q = sqlite_datetime c"
      and "date_part c = date_part cutoff" by blast
    with isoformat_above_same_day [of c cutoff] hit show False by simp
  qed
  with cut show ?thesis by (simp add: is_duplicate_mine)
qed

subsection \<open>Registration touches the users table only\<close>

lemma ensure_registered_quotes [simp]:
  "quotes (snd (ensure_registered utcnow d upd)) = quotes d"
  "quotes_seq (snd (ensure_registered utcnow d upd)) = quotes_seq d"
  "fst (ensure_registered utcnow d upd) = effective_chat_id upd"
  by (simp_all add: ensure_registered_def register_user_def)

lemma rows_of_registered [simp]:
  "rows_of (snd (ensure_registered utcnow d upd)) uid = rows_of d uid"
  by (simp add: rows_of_def)

lemma is_duplicate_registered [simp]:
  "is_duplicate now (snd (ensure_registered utcnow d upd)) uid tx minutes
     = is_duplicate now d uid tx minutes"
  by (simp add: is_duplicate_def split: option.splits)

lemma toggle_favorite_seq [simp]:
  "quotes_seq (snd (toggle_favorite d uid qid)) = quotes_seq d"
  by (simp add: toggle_favorite_def Let_def split: option.splits)

lemma last_command_reads:
  "quotes (snd (last_command int_outside utcnow d upd args)) = quotes d
   \<and> quotes_seq (snd (last_command int_outside utcnow d upd args)) = quotes_seq d"
  by (simp add: last_command_def Let_def split_beta)

lemma delete_command_not_owned:
  assumes arg: "py_int int_outside a = Some qid" "sqlite_int qid"
    and not_mine: "get_quote_by_id d (effective_chat_id upd) qid = None"
  shows "delete_command int_outside utcnow d upd (a # rest)
           = (Reply (''Quote #'' @ str_int qid @ '' not found.''), snd (ensure_registered utcnow d upd))"
proof -
  have "get_quote_by_id (snd (ensure_registered utcnow d upd)) (effective_chat_id upd) qid = None"
    using not_mine by (simp add: get_quote_by_id_def)
  with arg show ?thesis
    by (simp add: delete_command_def split_beta)
qed

lemma handle_message_without_quote:
  assumes "\<not> truthy (parsed_quote (parse_message (the (message_text upd))))"
  shows "quotes (fst (snd (handle_message parse_message fetch_metadata utcnow now st upd)))
           = quotes (fst st)
         \<and> quotes_seq (fst (snd (handle_message parse_message fetch_metadata utcnow now st upd)))
           = quotes_seq (fst st)"
  using assms by (simp add: handle_message_def Let_def split_beta)

section \<open>Facts about the examples\<close>

lemma sender_fields [simp]:
  "effective_chat_id (sender c t) = c"
  "effective_user (sender c t) = None"
  "message_text (sender c t) = t"
  by (simp_all add: sender_def)

lemma noon_value: "noon = 63839707200000000"
  unfolding noon_def by code_simp

lemma noon_text: "sqlite_datetime noon = ''2024-01-01 12:00:00''"
  unfolding noon_value by code_simp

lemma noon_minus_30_days: "sqlite_datetime (noon - timedelta_days 30) = ''2023-12-02 12:00:00''"
proof -
  have "noon - timedelta_days 30 = 63837115200000000"
    unfolding noon_value timedelta_days_def by simp
  then show ?thesis by (simp only:) code_simp
qed

lemma noon_minus_7_days: "sqlite_datetime (noon - timedelta_days 7) = ''2023-12-25 12:00:00''"
proof -
  have "noon - timedelta_days 7 = 63839102400000000"
    unfolding noon_value timedelta_days_def by simp
  then show ?thesis by (simp only:) code_simp
qed

lemma sr_bucket_thresholds:
  "sr_bucket noon (mk_row 1 1 ''q'' 1 (Some ''2023-12-02 11:59:59'') ''2023-10-01 08:00:00'') = 1
   \<and> sr_bucket noon (mk_row 1 1 ''q'' 1 (Some ''2023-12-02 12:00:00'') ''2023-10-01 08:00:00'') = 2
   \<and> sr_bucket noon (mk_row 1 1 ''q'' 1 (Some ''2023-12-25 11:59:59'') ''2023-10-01 08:00:00'') = 2
   \<and> sr_bucket noon (mk_row 1 1 ''q'' 1 (Some ''2023-12-25 12:00:00'') ''2023-10-01 08:00:00'') = 3"
  by (simp add: sr_bucket_def mk_row_def noon_minus_30_days noon_minus_7_days)

lemma primary_key_shelf: "primary_key shelf"
  by (simp add: primary_key_def shelf_def mk_row_def)

lemma shelf_random_3:
  "fst (get_random_quotes (\<lambda>i. 0) noon shelf 1 3 True)
   = [mk_row 2 1 ''beta'' 0 None ''2023-10-02 08:00:00'',
      mk_row 3 1 ''gamma'' 2 (Some ''2023-11-01 00:00:00'') ''2023-10-03 08:00:00'',
      mk_row 4 1 ''delta'' 5 (Some ''2023-12-10 00:00:00'') ''2023-10-04 08:00:00'']"
  by (simp add: get_random_quotes_rows rows_of_def shelf_def mk_row_def sr_bucket_def
        noon_minus_30_days noon_minus_7_days sql_limit_def)

lemma shelf_random_2:
  "fst (get_random_quotes (\<lambda>i. 0) noon shelf 1 2 True)
   = [mk_row 2 1 ''beta'' 0 None ''2023-10-02 08:00:00'',
      mk_row 3 1 ''gamma'' 2 (Some ''2023-11-01 00:00:00'') ''2023-10-03 08:00:00'']"
  by (simp add: get_random_quotes_rows rows_of_def shelf_def mk_row_def sr_bucket_def
        noon_minus_30_days noon_minus_7_days sql_limit_def)

lemma py_int_abc: "py_int int_outside ''abc'' = None"
  by (simp add: py_int_def is_ascii_def ascii_int_def int_strip_def is_int_space_def py_digits_def
        is_digit_def)

lemma py_int_minus_1: "py_int int_outside ''-1'' = Some (- 1)"
  by (simp add: py_int_def is_ascii_def ascii_int_def int_strip_def is_int_space_def py_digits_def
        is_digit_def digits_val_def
        digit_val_def)

lemma str_nat_small: "n < 10 \<Longrightarrow> str_nat n = [digit_char n]"
  by (simp add: str_nat.simps)

lemma str_int_1: "str_int 1 = ''1''"
  by (simp add: str_int_def str_nat_small digit_char_def)

lemma str_int_11: "str_int 11 = ''11''"
proof -
  have "str_nat 11 = str_nat 1 @ [digit_char 11]"
    by (subst str_nat.simps) simp
  then show ?thesis
    by (simp add: str_int_def str_nat_small digit_char_def)
qed

text \<open>
  A digit of another script is a number for \<open>int\<close>: \<open>/delete\<close> followed by the
  fullwidth digit one deletes quote 1.
\<close>

lemma py_int_fullwidth_one: "py_int fullwidth_int fullwidth_one = Some 1"
  by (simp add: py_int_def is_ascii_def fullwidth_int_def fullwidth_one_def)

lemma delete_command_fullwidth_one:
  "delete_command fullwidth_int noon lone_db (sender 2 None) [fullwidth_one]
     = (Reply (''Deleted quote #1:'' @ newline @ dquote @ ''other'' @ dquote),
        (snd (ensure_registered noon lone_db (sender 2 None)))\<lparr>quotes := []\<rparr>)"
  by (simp add: delete_command_def py_int_fullwidth_one split_beta sqlite_int_def
        get_quote_by_id_def delete_quote_def lone_db_def mk_row_def str_int_1 truncate_str_def
        Let_def)

lemma last_command_n_minus_1: "last_command_n int_outside [''-1''] = - 1"
  by (simp add: last_command_n_def py_int_minus_1)

lemma eleven_last: "get_last_quotes eleven 1 (- 1) = quotes eleven"
  by (simp add: get_last_quotes_def eleven_def mk_row_def order_by_desc_def sql_limit_def)

lemma noon_cutoff: "datetime_minus noon (timedelta_minutes 1) = Some 63839707140000000"
  unfolding noon_value by (simp add: datetime_minus_def timedelta_minutes_def max_datetime_def)

lemma noon_cutoff_text: "isoformat 63839707140000000 = ''2024-01-01T11:59:00''"
  by code_simp

lemma evening_local_value: "evening_local = 63839736000000000"
  unfolding evening_local_def by code_simp

lemma evening_cutoff: "datetime_minus evening_local (timedelta_minutes 1) = Some 63839735940000000"
  unfolding evening_local_value
  by (simp add: datetime_minus_def timedelta_minutes_def max_datetime_def)

lemma evening_cutoff_text: "isoformat 63839735940000000 = ''2024-01-01T19:59:00''"
  by code_simp

lemma evening_next_cutoff:
  "datetime_minus (evening_local + timedelta_minutes 1) (timedelta_minutes 1) = Some evening_local"
  unfolding evening_local_value
  by (simp add: datetime_minus_def timedelta_minutes_def max_datetime_def)

lemma evening_fresh:
  "is_duplicate (evening_local + timedelta_minutes 1) evening_db 1 ''fresh'' 1 = Inr False"
  by (simp add: is_duplicate_def evening_next_cutoff evening_db_def mk_row_def)

lemma evening_duplicate: "is_duplicate evening_local evening_db 1 ''same text'' 1 = Inr True"
  by (simp add: is_duplicate_mine evening_cutoff evening_cutoff_text rows_of_def evening_db_def
        mk_row_def)

lemma late_evening_cutoff:
  "datetime_minus late_evening_local (timedelta_minutes 1) = Some 63839746740000000"
proof -
  have "late_evening_local = 63839746800000000"
    unfolding late_evening_local_def by code_simp
  then show ?thesis
    by (simp add: datetime_minus_def timedelta_minutes_def max_datetime_def)
qed

lemma late_evening_cutoff_text: "isoformat 63839746740000000 = ''2024-01-01T22:59:00''"
  by code_simp

lemma is_duplicate_hours_later:
  "is_duplicate late_evening_local evening_db 1 ''same text'' 1 = Inr True"
  by (simp add: is_duplicate_mine late_evening_cutoff late_evening_cutoff_text rows_of_def
        evening_db_def mk_row_def)

section \<open>The claims\<close>

text \<open>
  C1. With spaced repetition on, the result is ordered by bucket (0 for \<open>last_shown\<close>
  NULL, 1 for \<open>last_shown\<close> before the clock minus 30 days, 2 for before the clock
  minus 7 days, 3 otherwise) and, inside a bucket, by ascending \<open>times_shown\<close>. Its
  rows are rows of the user, bucket 0 being exactly the never-shown ones; a row of the
  user that was left out comes no earlier in that order than any row returned; the
  length is \<open>n\<close>, or the number of the user's rows when that is smaller (or \<open>n\<close> is
  negative). So a row ahead of a never-shown row was never shown itself and has no
  larger \<open>times_shown\<close>.
\<close>

theorem get_random_quotes_bucket_order:
  assumes rows: "rows = fst (get_random_quotes rnd utcnow d uid n True)"
  shows "sorted_wrt (sr_before utcnow) rows
         \<and> (\<forall>r \<in> set rows. r \<in> set (rows_of d uid)
                \<and> (sr_bucket utcnow r = 0 \<longleftrightarrow> last_shown r = None))
         \<and> (\<forall>q \<in> set (rows_of d uid). q \<notin> set rows \<longrightarrow> (\<forall>r \<in> set rows. sr_before utcnow r q))
         \<and> length rows = (if n < 0 then length (rows_of d uid) else min (nat n) (length (rows_of d uid)))
         \<and> (\<forall>j < length rows. \<forall>i < j.
               last_shown (rows ! j) = None \<longrightarrow>
                 last_shown (rows ! i) = None \<and> times_shown (rows ! i) \<le> times_shown (rows ! j))"
proof -
  let ?k = "\<lambda>q. (sr_bucket utcnow q, times_shown q, rnd (quote_id q))"
  let ?all = "sort_key ?k (rows_of d uid)"
  have r: "rows = sql_limit n ?all"
    using rows by (simp add: get_random_quotes_rows)
  have weaker: "\<And>a b. ?k a \<le> ?k b \<Longrightarrow> sr_before utcnow a b"
    by (auto simp: sr_before_def less_eq_prod_def)
  have "sorted (map ?k ?all)" by (rule sorted_sort_key)
  then have "sorted_wrt (\<lambda>a b. ?k a \<le> ?k b) ?all"
    by (simp add: sorted_map)
  then have all_sorted: "sorted_wrt (sr_before utcnow) ?all"
    by (rule sorted_wrt_mono_rel [rotated]) (rule weaker)
  then have s: "sorted_wrt (sr_before utcnow) rows"
    unfolding r sql_limit_def by (simp add: sorted_wrt_take)
  have b0: "\<And>q. (sr_bucket utcnow q = 0) = (last_shown q = None)"
    by (simp add: sr_bucket_def split: option.splits)
  have mine: "\<forall>r \<in> set rows. r \<in> set (rows_of d uid)
                \<and> (sr_bucket utcnow r = 0 \<longleftrightarrow> last_shown r = None)"
    unfolding r using b0 by (auto dest: selected_in)
  have out: "\<forall>q \<in> set (rows_of d uid). q \<notin> set rows \<longrightarrow> (\<forall>r \<in> set rows. sr_before utcnow r q)"
  proof (intro ballI impI)
    fix q r assume "q \<in> set (rows_of d uid)" "q \<notin> set rows" "r \<in> set rows"
    then show "sr_before utcnow r q"
      unfolding r using left_out_not_before [OF all_sorted, of r n q] by simp
  qed
  have len: "length rows = (if n < 0 then length (rows_of d uid) else min (nat n) (length (rows_of d uid)))"
    unfolding r by (simp add: sql_limit_length)
  have pair: "\<And>i j. i < j \<Longrightarrow> j < length rows \<Longrightarrow> sr_before utcnow (rows ! i) (rows ! j)"
    using s by (simp add: sorted_wrt_iff_nth_less)
  have never: "\<forall>j < length rows. \<forall>i < j.
               last_shown (rows ! j) = None \<longrightarrow>
                 last_shown (rows ! i) = None \<and> times_shown (rows ! i) \<le> times_shown (rows ! j)"
  proof (intro allI impI)
    fix j i assume j: "j < length rows" and i: "i < j" and n: "last_shown (rows ! j) = None"
    from n have "sr_bucket utcnow (rows ! j) = 0" by (simp add: b0)
    with pair [OF i j]
    have "sr_bucket utcnow (rows ! i) = 0 \<and> times_shown (rows ! i) \<le> times_shown (rows ! j)"
      by (auto simp: sr_before_def)
    then show "last_shown (rows ! i) = None \<and> times_shown (rows ! i) \<le> times_shown (rows ! j)"
      by (simp add: b0)
  qed
  show ?thesis using s mine out len never by blast
qed

theorem get_random_quotes_bucket_order_witness:
  "fst (get_random_quotes (\<lambda>i. 0) noon shelf 1 3 True)
     = [mk_row 2 1 ''beta'' 0 None ''2023-10-02 08:00:00'',
        mk_row 3 1 ''gamma'' 2 (Some ''2023-11-01 00:00:00'') ''2023-10-03 08:00:00'',
        mk_row 4 1 ''delta'' 5 (Some ''2023-12-10 00:00:00'') ''2023-10-04 08:00:00'']
   \<and> map (sr_bucket noon) (fst (get_random_quotes (\<lambda>i. 0) noon shelf 1 3 True)) = [0, 1, 2]
   \<and> sorted_wrt (sr_before noon) (fst (get_random_quotes (\<lambda>i. 0) noon shelf 1 3 True))
   \<and> mk_row 1 1 ''alpha'' 1 (Some ''2023-12-30 09:00:00'') ''2023-10-01 08:00:00'' \<in> set (rows_of shelf 1)
   \<and> sr_bucket noon (mk_row 1 1 ''alpha'' 1 (Some ''2023-12-30 09:00:00'') ''2023-10-01 08:00:00'') = 3
   \<and> sr_before noon (mk_row 4 1 ''delta'' 5 (Some ''2023-12-10 00:00:00'') ''2023-10-04 08:00:00'')
        (mk_row 1 1 ''alpha'' 1 (Some ''2023-12-30 09:00:00'') ''2023-10-01 08:00:00'')"
proof -
  let ?rows = "fst (get_random_quotes (\<lambda>i. 0) noon shelf 1 3 True)"
  let ?alpha = "mk_row 1 1 ''alpha'' 1 (Some ''2023-12-30 09:00:00'') ''2023-10-01 08:00:00''"
  let ?delta = "mk_row 4 1 ''delta'' 5 (Some ''2023-12-10 00:00:00'') ''2023-10-04 08:00:00''"
  have b: "map (sr_bucket noon) ?rows = [0, 1, 2]"
    unfolding shelf_random_3
    by (simp add: mk_row_def sr_bucket_def noon_minus_30_days noon_minus_7_days)
  have a3: "sr_bucket noon ?alpha = 3"
    by (simp add: mk_row_def sr_bucket_def noon_minus_30_days noon_minus_7_days)
  have mine: "?alpha \<in> set (rows_of shelf 1)"
    by (simp add: rows_of_def shelf_def mk_row_def)
  have out: "?alpha \<notin> set ?rows"
    unfolding shelf_random_3 by (simp add: mk_row_def)
  have last: "?delta \<in> set ?rows"
    unfolding shelf_random_3 by simp
  note order = get_random_quotes_bucket_order [OF refl, where rnd = "\<lambda>i. 0" and utcnow = noon
      and d = shelf and uid = 1 and n = 3]
  from order have s: "sorted_wrt (sr_before noon) ?rows" by blast
  from order mine out last have "sr_before noon ?delta ?alpha" by blast
  with shelf_random_3 b s mine a3 show ?thesis by blast
qed

text \<open>
  C2. Under the primary key, \<open>get_random_quotes\<close> leaves the table as it was except
  that exactly the returned rows have \<open>times_shown\<close> one higher and \<open>last_shown\<close> set
  to the clock of the call; the returned rows are rows of the user; a user without
  quotes gets the empty list and the store is unchanged.
\<close>

theorem get_random_quotes_marks_shown:
  assumes pk: "primary_key d"
    and call: "get_random_quotes rnd utcnow d uid n sr = (rows, d')"
  shows "quotes d' = map (\<lambda>q. if q \<in> set rows then shown_at utcnow q else q) (quotes d)
         \<and> set rows \<subseteq> set (rows_of d uid)
         \<and> users d' = users d \<and> quotes_seq d' = quotes_seq d
         \<and> (rows_of d uid = [] \<longrightarrow> rows = [] \<and> d' = d)"
proof -
  have rows: "rows = fst (get_random_quotes rnd utcnow d uid n sr)"
    and d': "d' = snd (get_random_quotes rnd utcnow d uid n sr)"
    using call by simp_all
  have sub: "set rows \<subseteq> set (rows_of d uid)"
    unfolding rows by (auto dest: get_random_quotes_rows_mine)
  then have sub': "set rows \<subseteq> set (quotes d)"
    by (auto simp: rows_of_def)
  from pk have dist: "distinct (map quote_id (quotes d))"
    by (simp add: primary_key_def)
  have q: "quotes d' = map (\<lambda>q. if q \<in> set rows then shown_at utcnow q else q) (quotes d)"
  proof -
    have "quotes d' = map (\<lambda>q. if quote_id q \<in> quote_id ` set rows then shown_at utcnow q else q) (quotes d)"
      unfolding d' rows [symmetric] by (subst get_random_quotes_post) (simp add: rows)
    also have "\<dots> = map (\<lambda>q. if q \<in> set rows then shown_at utcnow q else q) (quotes d)"
    proof (rule map_cong [OF refl])
      fix q assume "q \<in> set (quotes d)"
      from id_in_rows_iff [OF dist sub' this]
      show "(if quote_id q \<in> quote_id ` set rows then shown_at utcnow q else q)
            = (if q \<in> set rows then shown_at utcnow q else q)"
        by simp
    qed
    finally show ?thesis .
  qed
  have keep: "users d' = users d" "quotes_seq d' = quotes_seq d"
    unfolding d' by (simp_all add: get_random_quotes_keeps)
  have empty: "rows = [] \<and> d' = d" if "rows_of d uid = []"
  proof -
    from that sub have r: "rows = []" by simp
    have "d' = d\<lparr>quotes := map (\<lambda>q. if quote_id q \<in> quote_id ` set rows
                                      then shown_at utcnow q else q) (quotes d)\<rparr>"
      unfolding d' rows by (rule get_random_quotes_post)
    with r show ?thesis by simp
  qed
  show ?thesis using q sub keep empty by blast
qed

theorem get_random_quotes_marks_shown_witness:
  "primary_key shelf
   \<and> fst (get_random_quotes (\<lambda>i. 0) noon shelf 1 2 True)
       = [mk_row 2 1 ''beta'' 0 None ''2023-10-02 08:00:00'',
          mk_row 3 1 ''gamma'' 2 (Some ''2023-11-01 00:00:00'') ''2023-10-03 08:00:00'']
   \<and> quotes (snd (get_random_quotes (\<lambda>i. 0) noon shelf 1 2 True))
       = [mk_row 1 1 ''alpha'' 1 (Some ''2023-12-30 09:00:00'') ''2023-10-01 08:00:00'',
          mk_row 2 1 ''beta'' 1 (Some ''2024-01-01 12:00:00'') ''2023-10-02 08:00:00'',
          mk_row 3 1 ''gamma'' 3 (Some ''2024-01-01 12:00:00'') ''2023-10-03 08:00:00'',
          mk_row 4 1 ''delta'' 5 (Some ''2023-12-10 00:00:00'') ''2023-10-04 08:00:00'',
          mk_row 5 2 ''other'' 0 None ''2023-10-05 08:00:00'']
   \<and> rows_of shelf 3 = []
   \<and> get_random_quotes (\<lambda>i. 0) noon shelf 3 2 True = ([], shelf)"
proof -
  let ?call = "get_random_quotes (\<lambda>i. 0) noon shelf 1 2 True"
  from get_random_quotes_marks_shown [OF primary_key_shelf prod.collapse [symmetric],
      where rnd = "\<lambda>i. 0" and utcnow = noon and uid = 1 and n = 2 and sr = True]
  have "quotes (snd ?call)
          = map (\<lambda>q. if q \<in> set (fst ?call) then shown_at noon q else q) (quotes shelf)"
    by blast
  then have post: "quotes (snd ?call)
       = [mk_row 1 1 ''alpha'' 1 (Some ''2023-12-30 09:00:00'') ''2023-10-01 08:00:00'',
          mk_row 2 1 ''beta'' 1 (Some ''2024-01-01 12:00:00'') ''2023-10-02 08:00:00'',
          mk_row 3 1 ''gamma'' 3 (Some ''2024-01-01 12:00:00'') ''2023-10-03 08:00:00'',
          mk_row 4 1 ''delta'' 5 (Some ''2023-12-10 00:00:00'') ''2023-10-04 08:00:00'',
          mk_row 5 2 ''other'' 0 None ''2023-10-05 08:00:00'']"
    unfolding shelf_random_2 by (simp add: shelf_def mk_row_def shown_at_def noon_text)
  have none: "rows_of shelf 3 = []"
    by (simp add: rows_of_def shelf_def mk_row_def)
  from get_random_quotes_marks_shown [OF primary_key_shelf prod.collapse [symmetric],
      where rnd = "\<lambda>i. 0" and utcnow = noon and uid = 3 and n = 2 and sr = True] none
  have "get_random_quotes (\<lambda>i. 0) noon shelf 3 2 True = ([], shelf)"
    by (simp add: prod_eq_iff)
  with primary_key_shelf shelf_random_2 post none show ?thesis by blast
qed

text \<open>
  C3. \<open>save_quote\<close> never looks at the text. Whatever the text, as long as the largest
  64-bit id has not been used, it succeeds, appends one row of the user with that
  text, and returns an id that no row of the store carries and that is above the
  counter of ids given out so far; and along any run of store calls on a store whose
  counter is in order, the ids returned by the saves are strictly increasing, hence
  pairwise different.
\<close>

theorem save_quote_new_id:
  "(max (quotes_seq d) (max_list (map quote_id (quotes d))) \<noteq> max_rowid \<longrightarrow>
      (\<exists>rid row.
         save_quote utcnow d uid txt u ti au dm tgs
           = Inr (rid, d\<lparr>quotes := quotes d @ [row], quotes_seq := rid\<rparr>)
         \<and> quote_id row = rid \<and> user_id row = uid \<and> quote_text row = txt
         \<and> rid \<notin> quote_id ` set (quotes d) \<and> quotes_seq d < rid
         \<and> (primary_key d \<longrightarrow> primary_key (d\<lparr>quotes := quotes d @ [row], quotes_seq := rid\<rparr>))))
   \<and> (sequence_ok d0 \<longrightarrow>
        sorted_wrt (<) (new_ids (fst (store_calls dumps d0 calls)))
        \<and> distinct (new_ids (fst (store_calls dumps d0 calls)))
        \<and> (\<forall>i \<in> set (new_ids (fst (store_calls dumps d0 calls))). quotes_seq d0 < i))"
proof (intro conjI impI)
  let ?l = "max (quotes_seq d) (max_list (map quote_id (quotes d)))"
  let ?row = "\<lparr>quote_id = ?l + 1, user_id = uid, quote_text = txt,
               url = u, source_title = ti, source_author = au, source_domain = dm,
               tags = (if tgs \<noteq> [] then Some (join '','' tgs) else None), is_favorite = 0,
               times_shown = 0, last_shown = None, created_at = sqlite_datetime utcnow\<rparr>"
  assume room: "?l \<noteq> max_rowid"
  have fresh: "?l + 1 \<notin> quote_id ` set (quotes d)"
  proof
    assume "?l + 1 \<in> quote_id ` set (quotes d)"
    then have "?l + 1 \<in> set (map quote_id (quotes d))" by simp
    then have "?l + 1 \<le> max_list (map quote_id (quotes d))" by (rule max_list_ge)
    then show False by simp
  qed
  have "save_quote utcnow d uid txt u ti au dm tgs
          = Inr (?l + 1, d\<lparr>quotes := quotes d @ [?row], quotes_seq := ?l + 1\<rparr>)"
    using room by (simp add: save_quote_def Let_def)
  moreover have "quotes_seq d < ?l + 1" by simp
  moreover have "primary_key d \<longrightarrow> primary_key (d\<lparr>quotes := quotes d @ [?row], quotes_seq := ?l + 1\<rparr>)"
    using fresh by (simp add: primary_key_def)
  ultimately show "\<exists>rid row.
         save_quote utcnow d uid txt u ti au dm tgs
           = Inr (rid, d\<lparr>quotes := quotes d @ [row], quotes_seq := rid\<rparr>)
         \<and> quote_id row = rid \<and> user_id row = uid \<and> quote_text row = txt
         \<and> rid \<notin> quote_id ` set (quotes d) \<and> quotes_seq d < rid
         \<and> (primary_key d \<longrightarrow> primary_key (d\<lparr>quotes := quotes d @ [row], quotes_seq := rid\<rparr>))"
    using fresh by (intro exI [of _ "?l + 1"] exI [of _ ?row]) simp
next
  assume ok: "sequence_ok d0"
  from new_ids_increase [OF ok]
  show "sorted_wrt (<) (new_ids (fst (store_calls dumps d0 calls)))"
    and "\<forall>i \<in> set (new_ids (fst (store_calls dumps d0 calls))). quotes_seq d0 < i"
    by blast+
  then show "distinct (new_ids (fst (store_calls dumps d0 calls)))"
    using strict_sorted_iff by blast
qed

text \<open>
  C3, as written, fails on the empty text: \<open>save_quote\<close> stores it like any other
  (only \<open>handle_message\<close> keeps an empty quote away from the store).
\<close>

theorem save_quote_empty_text_succeeds:
  "save_quote noon empty_db 1 [] None None None None []
     = Inr (1, \<lparr>users = [],
                quotes = [mk_row 1 1 [] 0 None (sqlite_datetime noon)],
                quotes_seq = 1\<rparr>)"
  by (simp add: save_quote_def empty_db_def mk_row_def max_list_def max_rowid_def)

theorem save_quote_new_id_witness:
  "max (quotes_seq shelf) (max_list (map quote_id (quotes shelf))) \<noteq> max_rowid
   \<and> sequence_ok shelf
   \<and> save_quote noon shelf 1 [] None None None None []
       = Inr (6, shelf\<lparr>quotes := quotes shelf @ [mk_row 6 1 [] 0 None (sqlite_datetime noon)],
                       quotes_seq := 6\<rparr>)
   \<and> new_ids (fst (store_calls (\<lambda>rows. []) shelf
                      [at_noon_plus 0 1 (Save_quote ''one'' None None None None []),
                       at_noon_plus 5 2 (Delete_quote 5),
                       at_noon_plus 9 2 (Save_quote ''two'' None None None None [])])) = [6, 7]
   \<and> sorted_wrt (<) (new_ids (fst (store_calls (\<lambda>rows. []) shelf
                      [at_noon_plus 0 1 (Save_quote ''one'' None None None None []),
                       at_noon_plus 5 2 (Delete_quote 5),
                       at_noon_plus 9 2 (Save_quote ''two'' None None None None [])])))"
proof -
  let ?calls = "[at_noon_plus 0 1 (Save_quote ''one'' None None None None []),
                 at_noon_plus 5 2 (Delete_quote 5),
                 at_noon_plus 9 2 (Save_quote ''two'' None None None None [])]"
  have l: "max (quotes_seq shelf) (max_list (map quote_id (quotes shelf))) = 5"
    by (simp add: shelf_def mk_row_def max_list_def)
  then have room: "max (quotes_seq shelf) (max_list (map quote_id (quotes shelf))) \<noteq> max_rowid"
    by (simp add: max_rowid_def)
  have ok: "sequence_ok shelf"
    by (simp add: sequence_ok_def shelf_def mk_row_def)
  have saved: "save_quote noon shelf 1 [] None None None None []
       = Inr (6, shelf\<lparr>quotes := quotes shelf @ [mk_row 6 1 [] 0 None (sqlite_datetime noon)],
                       quotes_seq := 6\<rparr>)"
    by (simp add: save_quote_def Let_def l max_rowid_def mk_row_def)
  have ids: "new_ids (fst (store_calls (\<lambda>rows. []) shelf ?calls)) = [6, 7]"
    by (simp add: Let_def store_request_def at_noon_plus_def save_quote_def delete_quote_def l
          max_rowid_def shelf_def mk_row_def max_list_def)
  from save_quote_new_id [where ?d0.0 = shelf and dumps = "\<lambda>rows. []" and calls = ?calls] ok
  have "sorted_wrt (<) (new_ids (fst (store_calls (\<lambda>rows. []) shelf ?calls)))"
    by blast
  with room ok saved ids show ?thesis by blast
qed

text \<open>
  C4. A pending URL stored at \<open>t\<close> and read later than \<open>t\<close> plus five minutes gives
  nothing and is deleted, so that a second read, at any time, gives nothing either;
  read at or before \<open>t\<close> plus five minutes it gives the stored URL and metadata and
  stays.
\<close>

theorem get_pending_url_expiry:
  "(t + timedelta_minutes 5 < now \<longrightarrow>
      get_pending_url now (set_pending_url t ud u m) = (None, None)
      \<and> get_pending_url now' (snd (get_pending_url now (set_pending_url t ud u m))) = (None, None))
   \<and> (now \<le> t + timedelta_minutes 5 \<longrightarrow>
      get_pending_url now (set_pending_url t ud u m) = (Some (u, m), set_pending_url t ud u m))"
  by (auto simp: get_pending_url_def set_pending_url_def PENDING_URL_TIMEOUT_def)

theorem get_pending_url_expiry_witness:
  "noon + timedelta_minutes 5 < noon + 300000001
   \<and> get_pending_url (noon + 300000001) (set_pending_url noon None ''https://example.com'' no_metadata)
       = (None, None)
   \<and> get_pending_url (noon + 300000002)
        (snd (get_pending_url (noon + 300000001)
                (set_pending_url noon None ''https://example.com'' no_metadata)))
       = (None, None)
   \<and> noon + 300000000 \<le> noon + timedelta_minutes 5
   \<and> get_pending_url (noon + 300000000) (set_pending_url noon None ''https://example.com'' no_metadata)
       = (Some (''https://example.com'', no_metadata),
          set_pending_url noon None ''https://example.com'' no_metadata)"
proof -
  have late: "noon + timedelta_minutes 5 < noon + 300000001"
    and in_time: "noon + 300000000 \<le> noon + timedelta_minutes 5"
    by (simp_all add: timedelta_minutes_def)
  from late in_time
    get_pending_url_expiry [where t = noon and now = "noon + 300000001" and ud = None
      and u = "''https://example.com''" and m = no_metadata and now' = "noon + 300000002"]
    get_pending_url_expiry [where t = noon and now = "noon + 300000000" and ud = None
      and u = "''https://example.com''" and m = no_metadata]
  show ?thesis by blast
qed

text \<open>
  C5. A call of any quote function by a user leaves the rows of all other users as
  they were, under the primary key (which every call preserves); that covers the
  UPDATE of \<open>get_random_quotes\<close>, which selects by id alone. What a call returns is
  the same on any two stores that hold the same rows of that user, for every function
  but \<open>save_quote\<close>, whose new id is one more than the largest id the whole table has
  ever held.
\<close>

theorem store_call_owner_only:
  assumes pk: "primary_key d"
  shows "rows_of_others (snd (store_call rnd utcnow now dumps d uid op)) uid = rows_of_others d uid
         \<and> primary_key (snd (store_call rnd utcnow now dumps d uid op))
         \<and> (\<not> is_save op \<longrightarrow> rows_of d2 uid = rows_of d uid \<longrightarrow>
              fst (store_call rnd utcnow now dumps d2 uid op)
                = fst (store_call rnd utcnow now dumps d uid op))
         \<and> (is_save op \<longrightarrow>
              fst (store_call rnd utcnow now dumps d uid op)
                = (if max (quotes_seq d) (max_list (map quote_id (quotes d))) = max_rowid
                   then Failed SQLITE_FULL
                   else New_id (max (quotes_seq d) (max_list (map quote_id (quotes d))) + 1)))"
proof (intro conjI impI)
  show "rows_of_others (snd (store_call rnd utcnow now dumps d uid op)) uid = rows_of_others d uid"
    using pk by (rule store_call_others)
  show "primary_key (snd (store_call rnd utcnow now dumps d uid op))"
    using pk by (rule store_call_primary_key)
next
  assume "\<not> is_save op" and "rows_of d2 uid = rows_of d uid"
  then show "fst (store_call rnd utcnow now dumps d2 uid op)
               = fst (store_call rnd utcnow now dumps d uid op)"
    by (intro store_call_reads_mine)
next
  assume "is_save op"
  then show "fst (store_call rnd utcnow now dumps d uid op)
                = (if max (quotes_seq d) (max_list (map quote_id (quotes d))) = max_rowid
                   then Failed SQLITE_FULL
                   else New_id (max (quotes_seq d) (max_list (map quote_id (quotes d))) + 1))"
    by (cases op) (simp_all add: save_quote_def Let_def)
qed

text \<open>
  C5, as written, fails on \<open>save_quote\<close>: user 1 has no rows in either store, and the
  id returned tells whether user 2 has saved a quote.
\<close>

theorem save_quote_id_depends_on_others:
  "rows_of empty_db 1 = rows_of lone_db 1
   \<and> fst (store_call (\<lambda>i. 0) noon noon (\<lambda>rows. []) empty_db 1
            (Save_quote ''mine'' None None None None [])) = New_id 1
   \<and> fst (store_call (\<lambda>i. 0) noon noon (\<lambda>rows. []) lone_db 1
            (Save_quote ''mine'' None None None None [])) = New_id 2"
  by (simp add: rows_of_def empty_db_def lone_db_def mk_row_def save_quote_def Let_def
        max_list_def max_rowid_def)

theorem store_call_owner_only_witness:
  "primary_key shelf
   \<and> rows_of_others (snd (store_call (\<lambda>i. 0) noon noon (\<lambda>rows. []) shelf 1 (Get_random_quotes 2 True))) 1
       = [mk_row 5 2 ''other'' 0 None ''2023-10-05 08:00:00'']
   \<and> \<not> is_save (Search_quotes ''A'')
   \<and> rows_of (shelf\<lparr>quotes := butlast (quotes shelf)\<rparr>) 1 = rows_of shelf 1
   \<and> fst (store_call (\<lambda>i. 0) noon noon (\<lambda>rows. []) (shelf\<lparr>quotes := butlast (quotes shelf)\<rparr>) 1
            (Search_quotes ''A''))
       = fst (store_call (\<lambda>i. 0) noon noon (\<lambda>rows. []) shelf 1 (Search_quotes ''A''))
   \<and> is_save (Save_quote ''mine'' None None None None [])
   \<and> fst (store_call (\<lambda>i. 0) noon noon (\<lambda>rows. []) shelf 1 (Save_quote ''mine'' None None None None []))
       = New_id 6"
proof -
  have others: "rows_of_others shelf 1 = [mk_row 5 2 ''other'' 0 None ''2023-10-05 08:00:00'']"
    by (simp add: rows_of_others_def shelf_def mk_row_def)
  have same: "rows_of (shelf\<lparr>quotes := butlast (quotes shelf)\<rparr>) 1 = rows_of shelf 1"
    by (simp add: rows_of_def shelf_def mk_row_def)
  have l: "max (quotes_seq shelf) (max_list (map quote_id (quotes shelf))) = 5"
    by (simp add: shelf_def mk_row_def max_list_def)
  note a = store_call_owner_only [OF primary_key_shelf, where rnd = "\<lambda>i. 0" and utcnow = noon
      and now = noon and dumps = "\<lambda>rows. []" and uid = 1 and op = "Get_random_quotes 2 True"]
  note b = store_call_owner_only [OF primary_key_shelf, where rnd = "\<lambda>i. 0" and utcnow = noon
      and now = noon and dumps = "\<lambda>rows. []" and uid = 1 and op = "Search_quotes ''A''"
      and ?d2.0 = "shelf\<lparr>quotes := butlast (quotes shelf)\<rparr>"]
  note c = store_call_owner_only [OF primary_key_shelf, where rnd = "\<lambda>i. 0" and utcnow = noon
      and now = noon and dumps = "\<lambda>rows. []" and uid = 1
      and op = "Save_quote ''mine'' None None None None []"]
  from a [THEN conjunct1] others
  have 1: "rows_of_others (snd (store_call (\<lambda>i. 0) noon noon (\<lambda>rows. []) shelf 1 (Get_random_quotes 2 True))) 1
       = [mk_row 5 2 ''other'' 0 None ''2023-10-05 08:00:00'']"
    by (simp only:)
  have ns: "\<not> is_save (Search_quotes ''A'')" by simp
  from b ns same
  have 2: "fst (store_call (\<lambda>i. 0) noon noon (\<lambda>rows. []) (shelf\<lparr>quotes := butlast (quotes shelf)\<rparr>) 1
            (Search_quotes ''A''))
       = fst (store_call (\<lambda>i. 0) noon noon (\<lambda>rows. []) shelf 1 (Search_quotes ''A''))"
    by blast
  have s: "is_save (Save_quote ''mine'' None None None None [])" by simp
  from c s l
  have "fst (store_call (\<lambda>i. 0) noon noon (\<lambda>rows. []) shelf 1
                         (Save_quote ''mine'' None None None None []))
          = (if (5::int) = max_rowid then Failed SQLITE_FULL else New_id (5 + 1))"
    by metis
  then have 3: "fst (store_call (\<lambda>i. 0) noon noon (\<lambda>rows. []) shelf 1
                         (Save_quote ''mine'' None None None None [])) = New_id 6"
    by (simp add: max_rowid_def)
  from primary_key_shelf 1 2 3 same ns s show ?thesis by blast
qed

text \<open>
  C6. A malformed number, that is an argument on which \<open>int\<close> raises \<open>ValueError\<close>,
  is answered after \<open>/fav\<close> or \<open>/delete\<close> with ``Invalid quote ID. Use a number.'',
  and a missing one with the usage line; \<open>/last\<close> with a malformed number behaves as
  \<open>/last\<close> without argument. In each of these cases the store is left as the sender's
  registration left it: the quote table and its id counter are what they were. This
  holds whatever \<open>int\<close> does outside ASCII (\<open>int_outside\<close>): an argument that \<open>int\<close>
  reads there, such as the fullwidth digit one, is a number and not covered, see
  \<open>delete_command_fullwidth_one\<close>.
\<close>

theorem malformed_argument:
  assumes bad: "py_int int_outside a = None"
  shows "fav_command int_outside utcnow d upd (a # rest)
           = (Reply ''Invalid quote ID. Use a number.'', snd (ensure_registered utcnow d upd))
         \<and> delete_command int_outside utcnow d upd (a # rest)
           = (Reply ''Invalid quote ID. Use a number.'', snd (ensure_registered utcnow d upd))
         \<and> last_command int_outside utcnow d upd (a # rest) = last_command int_outside utcnow d upd []
         \<and> snd (last_command int_outside utcnow d upd (a # rest)) = snd (ensure_registered utcnow d upd)
         \<and> fav_command int_outside utcnow d upd []
           = (Reply ''Usage: /fav <quote_id>'', snd (ensure_registered utcnow d upd))
         \<and> delete_command int_outside utcnow d upd []
           = (Reply ''Usage: /delete <quote_id>'', snd (ensure_registered utcnow d upd))
         \<and> quotes (snd (ensure_registered utcnow d upd)) = quotes d
         \<and> quotes_seq (snd (ensure_registered utcnow d upd)) = quotes_seq d"
proof -
  have fav: "fav_command int_outside utcnow d upd (a # rest)
               = (Reply ''Invalid quote ID. Use a number.'', snd (ensure_registered utcnow d upd))"
    using bad by (simp add: fav_command_def split_beta)
  have del: "delete_command int_outside utcnow d upd (a # rest)
               = (Reply ''Invalid quote ID. Use a number.'', snd (ensure_registered utcnow d upd))"
    using bad by (simp add: delete_command_def split_beta)
  have n: "last_command_n int_outside (a # rest) = 5"
    using bad by (simp add: last_command_n_def)
  have n0: "last_command_n int_outside [] = 5"
    by (simp add: last_command_n_def)
  have last: "last_command int_outside utcnow d upd (a # rest) = last_command int_outside utcnow d upd []"
    by (simp add: last_command_def n n0)
  have last_state: "snd (last_command int_outside utcnow d upd (a # rest)) = snd (ensure_registered utcnow d upd)"
    by (simp add: last_command_def n split_beta Let_def sqlite_int_def)
  have fav0: "fav_command int_outside utcnow d upd []
               = (Reply ''Usage: /fav <quote_id>'', snd (ensure_registered utcnow d upd))"
    by (simp add: fav_command_def split_beta)
  have del0: "delete_command int_outside utcnow d upd []
               = (Reply ''Usage: /delete <quote_id>'', snd (ensure_registered utcnow d upd))"
    by (simp add: delete_command_def split_beta)
  show ?thesis
    using fav del last last_state fav0 del0 by simp
qed

text \<open>
  C6, as written, fails for \<open>/last\<close>: the malformed argument is passed over and the
  command lists the quotes as if it had none.
\<close>

theorem last_command_malformed_lists_quotes:
  "py_int fullwidth_int ''abc'' = None
   \<and> fst (last_command fullwidth_int noon lone_db (sender 2 None) [''abc''])
       = Reply (''Last 1 quote(s):'' @ newline @ newline
                @ ''[#1] '' @ dquote @ ''other'' @ dquote @ newline @ newline)"
  by (simp add: py_int_abc last_command_def last_command_n_def ensure_registered_def
        register_user_def sender_def lone_db_def mk_row_def get_last_quotes_def
        order_by_desc_def sql_limit_def sqlite_int_def format_quote_def truthy_def str_int_1
        Let_def newline_def dquote_def)

theorem malformed_argument_witness:
  "py_int fullwidth_int ''abc'' = None
   \<and> fst (fav_command fullwidth_int noon shelf (sender 1 None) [''abc'']) = Reply ''Invalid quote ID. Use a number.''
   \<and> fst (delete_command fullwidth_int noon shelf (sender 1 None) [''abc'']) = Reply ''Invalid quote ID. Use a number.''
   \<and> quotes (snd (fav_command fullwidth_int noon shelf (sender 1 None) [''abc''])) = quotes shelf
   \<and> quotes (snd (delete_command fullwidth_int noon shelf (sender 1 None) [''abc''])) = quotes shelf
   \<and> quotes (snd (last_command fullwidth_int noon shelf (sender 1 None) [''abc''])) = quotes shelf
   \<and> last_command fullwidth_int noon shelf (sender 1 None) [''abc''] = last_command fullwidth_int noon shelf (sender 1 None) []"
  using malformed_argument [OF py_int_abc, where utcnow = noon and d = shelf
      and upd = "sender 1 None" and rest = "[]" and int_outside = fullwidth_int]
    py_int_abc [of fullwidth_int]
  by (simp add: last_command_reads)

text \<open>
  C7 at \<open>/last -1\<close>, sent by a user with eleven quotes: \<open>min\<close> keeps the negative
  number, a negative LIMIT is no limit, and all eleven quotes are listed.
\<close>

theorem last_command_negative_lists_all:
  "last_command_n int_outside [''-1''] = - 1
   \<and> length (get_last_quotes eleven 1 (last_command_n int_outside [''-1''])) = 11
   \<and> fst (last_command int_outside noon eleven (sender 1 None) [''-1''])
       = Reply (''Last 11 quote(s):'' @ newline @ newline
                @ concat (map (\<lambda>q. format_quote q True @ newline @ newline) (quotes eleven)))"
proof -
  have len: "length (quotes eleven) = 11"
    by (simp add: eleven_def)
  have reg: "get_last_quotes (snd (ensure_registered noon eleven (sender 1 None))) 1 (- 1)
               = quotes eleven"
    using eleven_last by (simp add: get_last_quotes_def)
  have short: "length (''Last 11 quote(s):'' @ newline @ newline
                @ concat (map (\<lambda>q. format_quote q True @ newline @ newline) (quotes eleven))) \<le> 4000"
    by (simp add: eleven_def mk_row_def format_quote_def truthy_def newline_def dquote_def
          Let_def str_int_def str_nat.simps digit_char_def)
  have nonempty: "quotes eleven \<noteq> []"
    by (simp add: eleven_def)
  have "fst (last_command int_outside noon eleven (sender 1 None) [''-1''])
       = Reply (take 4000 (''Last 11 quote(s):'' @ newline @ newline
                @ concat (map (\<lambda>q. format_quote q True @ newline @ newline) (quotes eleven))))"
    by (simp add: last_command_def last_command_n_minus_1 split_beta
          sqlite_int_def reg nonempty len str_int_11 Let_def del: take_append)
  with short have r: "fst (last_command int_outside noon eleven (sender 1 None) [''-1''])
       = Reply (''Last 11 quote(s):'' @ newline @ newline
                @ concat (map (\<lambda>q. format_quote q True @ newline @ newline) (quotes eleven)))"
    by (simp only: take_all)
  from last_command_n_minus_1 eleven_last len r show ?thesis by simp
qed

text \<open>
  C8 right after a save, on a machine whose local time is UTC: the row is stamped
  \<open>2024-01-01 12:00:00\<close>, the cutoff is sent as \<open>2024-01-01T11:59:00\<close>, and as text
  the row's stamp is the smaller of the two (a space sorts before the letter T).
\<close>

theorem is_duplicate_after_save:
  "save_quote noon empty_db 1 ''same text'' None None None None []
     = Inr (1, \<lparr>users = [],
                quotes = [mk_row 1 1 ''same text'' 0 None ''2024-01-01 12:00:00''],
                quotes_seq = 1\<rparr>)
   \<and> is_duplicate noon
        \<lparr>users = [], quotes = [mk_row 1 1 ''same text'' 0 None ''2024-01-01 12:00:00''],
         quotes_seq = 1\<rparr> 1 ''same text'' 1
       = Inr False"
proof -
  have "save_quote noon empty_db 1 ''same text'' None None None None []
     = Inr (1, \<lparr>users = [],
                quotes = [mk_row 1 1 ''same text'' 0 None ''2024-01-01 12:00:00''],
                quotes_seq = 1\<rparr>)"
    by (simp add: save_quote_def empty_db_def mk_row_def max_list_def max_rowid_def noon_text)
  moreover have "is_duplicate noon
        \<lparr>users = [], quotes = [mk_row 1 1 ''same text'' 0 None ''2024-01-01 12:00:00''],
         quotes_seq = 1\<rparr> 1 ''same text'' 1
       = Inr False"
    by (simp add: is_duplicate_def noon_cutoff noon_cutoff_text mk_row_def)
  ultimately show ?thesis by simp
qed

text \<open>
  C9. \<open>delete_quote\<close> answers true exactly when the user owns a row with that id; the
  rows it removes are exactly those; when it answers false the store is what it was;
  rows of other users stay in every case.
\<close>

theorem delete_quote_spec:
  "(fst (delete_quote d uid qid) \<longleftrightarrow> (\<exists>q \<in> set (quotes d). quote_id q = qid \<and> user_id q = uid))
   \<and> set (quotes (snd (delete_quote d uid qid)))
       = set (quotes d) - {q. quote_id q = qid \<and> user_id q = uid}
   \<and> (\<not> fst (delete_quote d uid qid) \<longrightarrow> snd (delete_quote d uid qid) = d)
   \<and> (\<forall>q \<in> set (quotes d). user_id q \<noteq> uid \<longrightarrow> q \<in> set (quotes (snd (delete_quote d uid qid))))
   \<and> users (snd (delete_quote d uid qid)) = users d
   \<and> quotes_seq (snd (delete_quote d uid qid)) = quotes_seq d"
proof -
  let ?P = "\<lambda>q. quote_id q = qid \<and> user_id q = uid"
  have res: "fst (delete_quote d uid qid) = (0 < length (filter ?P (quotes d)))"
    and post: "snd (delete_quote d uid qid) = d\<lparr>quotes := filter (\<lambda>q. \<not> ?P q) (quotes d)\<rparr>"
    by (simp_all add: delete_quote_def Let_def)
  have a: "(0 < length (filter ?P (quotes d))) \<longleftrightarrow> (\<exists>q \<in> set (quotes d). ?P q)"
    by (simp add: filter_empty_conv)
  have c: "\<not> (\<exists>q \<in> set (quotes d). ?P q) \<Longrightarrow> filter (\<lambda>q. \<not> ?P q) (quotes d) = quotes d"
    by (simp add: filter_id_conv)
  show ?thesis
    unfolding res post a using c by auto
qed

theorem delete_quote_spec_witness:
  "\<not> fst (delete_quote shelf 1 5) \<and> snd (delete_quote shelf 1 5) = shelf
   \<and> mk_row 5 2 ''other'' 0 None ''2023-10-05 08:00:00'' \<in> set (quotes (snd (delete_quote shelf 1 5)))
   \<and> fst (delete_quote shelf 2 5)
   \<and> mk_row 5 2 ''other'' 0 None ''2023-10-05 08:00:00'' \<notin> set (quotes (snd (delete_quote shelf 2 5)))"
proof -
  have no: "\<not> (\<exists>q \<in> set (quotes shelf). quote_id q = 5 \<and> user_id q = 1)"
    by (simp add: shelf_def mk_row_def)
  have yes: "\<exists>q \<in> set (quotes shelf). quote_id q = 5 \<and> user_id q = 2"
    by (simp add: shelf_def mk_row_def)
  have other: "mk_row 5 2 ''other'' 0 None ''2023-10-05 08:00:00'' \<in> set (quotes shelf)"
    by (simp add: shelf_def)
  from delete_quote_spec [of shelf 1 5] no other
  have a: "\<not> fst (delete_quote shelf 1 5)" "snd (delete_quote shelf 1 5) = shelf"
    "mk_row 5 2 ''other'' 0 None ''2023-10-05 08:00:00'' \<in> set (quotes (snd (delete_quote shelf 1 5)))"
    by auto
  from delete_quote_spec [of shelf 2 5] yes
  have b: "fst (delete_quote shelf 2 5)"
    "mk_row 5 2 ''other'' 0 None ''2023-10-05 08:00:00'' \<notin> set (quotes (snd (delete_quote shelf 2 5)))"
    by (auto simp: mk_row_def)
  from a b show ?thesis by blast
qed

text \<open>
  C10. A message whose quote \<open>is_duplicate\<close> reports as saved already is answered
  with a notice; the quote table, its id counter and the pending URL are left as
  they were. If a quote-only message that is not a duplicate then arrives no later
  than five minutes after the pending URL was stored, and an id is left to give out,
  the quote is saved with that URL and with the title, author and domain kept with
  it, and the pending URL is cleared.
\<close>

theorem duplicate_keeps_pending_url:
  assumes first_msg: "truthy (message_text upd)"
      "truthy (parsed_quote (parse_message (the (message_text upd))))"
    and dup: "is_duplicate now (snd (ensure_registered utcnow d upd)) (effective_chat_id upd)
                (the (parsed_quote (parse_message (the (message_text upd))))) 1 = Inr True"
    and after_dup: "st1 = snd (handle_message parse_message fetch_metadata utcnow now (d, Some pend) upd)"
    and second_msg: "truthy (message_text upd2)"
      "truthy (parsed_quote (parse_message (the (message_text upd2))))"
      "\<not> truthy (parsed_url (parse_message (the (message_text upd2))))"
    and fresh: "is_duplicate now2 (snd (ensure_registered utcnow2 (fst st1) upd2)) (effective_chat_id upd2)
                (the (parsed_quote (parse_message (the (message_text upd2))))) 1 = Inr False"
    and in_time: "now2 \<le> pending_timestamp pend + timedelta_minutes 5"
    and room: "max (quotes_seq d) (max_list (map quote_id (quotes d))) \<noteq> max_rowid"
  shows "fst (handle_message parse_message fetch_metadata utcnow now (d, Some pend) upd)
           = Reply ''This quote was already saved recently.''
         \<and> quotes (fst st1) = quotes d \<and> quotes_seq (fst st1) = quotes_seq d
         \<and> snd st1 = Some pend
         \<and> (\<exists>row. quotes (fst (snd (handle_message parse_message fetch_metadata utcnow2 now2 st1 upd2)))
                      = quotes d @ [row]
                \<and> user_id row = effective_chat_id upd2
                \<and> quote_text row = the (parsed_quote (parse_message (the (message_text upd2))))
                \<and> url row = Some (pending_url pend)
                \<and> source_title row = title (pending_metadata pend)
                \<and> source_author row = author (pending_metadata pend)
                \<and> source_domain row = domain (pending_metadata pend))
         \<and> snd (snd (handle_message parse_message fetch_metadata utcnow2 now2 st1 upd2)) = None"
proof -
  let ?d1 = "snd (ensure_registered utcnow d upd)"
  have h1: "handle_message parse_message fetch_metadata utcnow now (d, Some pend) upd
              = (Reply ''This quote was already saved recently.'', (?d1, Some pend))"
    using first_msg dup by (simp add: handle_message_def Let_def split_beta)
  then have st1: "st1 = (?d1, Some pend)"
    using after_dup by simp
  let ?d2 = "snd (ensure_registered utcnow2 ?d1 upd2)"
  let ?p2 = "parse_message (the (message_text upd2))"
  have pending: "get_pending_url now2 (Some pend) = (Some (pending_url pend, pending_metadata pend), Some pend)"
    using in_time by (simp add: get_pending_url_def PENDING_URL_TIMEOUT_def)
  have fresh': "is_duplicate now2 ?d2 (effective_chat_id upd2) (the (parsed_quote ?p2)) 1 = Inr False"
    using fresh st1 by simp
  have room2: "max (quotes_seq ?d2) (max_list (map quote_id (quotes ?d2))) \<noteq> max_rowid"
    using room by simp
  let ?l = "max (quotes_seq d) (max_list (map quote_id (quotes d)))"
  let ?row = "\<lparr>quote_id = ?l + 1, user_id = effective_chat_id upd2,
               quote_text = the (parsed_quote ?p2), url = Some (pending_url pend),
               source_title = title (pending_metadata pend),
               source_author = author (pending_metadata pend),
               source_domain = domain (pending_metadata pend),
               tags = (if parsed_tags ?p2 \<noteq> [] then Some (join '','' (parsed_tags ?p2)) else None),
               is_favorite = 0, times_shown = 0, last_shown = None,
               created_at = sqlite_datetime utcnow2\<rparr>"
  have saved: "save_quote utcnow2 ?d2 (effective_chat_id upd2) (the (parsed_quote ?p2))
                 (Some (pending_url pend)) (title (pending_metadata pend))
                 (author (pending_metadata pend)) (domain (pending_metadata pend)) (parsed_tags ?p2)
               = Inr (?l + 1, ?d2\<lparr>quotes := quotes d @ [?row], quotes_seq := ?l + 1\<rparr>)"
    using room by (simp add: save_quote_def Let_def)
  have h2: "snd (handle_message parse_message fetch_metadata utcnow2 now2 (?d1, Some pend) upd2)
              = (?d2\<lparr>quotes := quotes d @ [?row], quotes_seq := ?l + 1\<rparr>, None)"
    using second_msg fresh' pending saved
    by (simp add: handle_message_def Let_def split_beta clear_pending_url_def)
  show ?thesis
    unfolding st1 h1 h2 by simp
qed

theorem duplicate_keeps_pending_url_witness:
  "is_duplicate evening_local evening_db 1 ''same text'' 1 = Inr True
   \<and> handle_message quote_only (\<lambda>u. no_metadata) evening_utc evening_local
        (evening_db, Some example_pending) (sender 1 (Some ''same text''))
       = (Reply ''This quote was already saved recently.'',
          (snd (ensure_registered evening_utc evening_db (sender 1 (Some ''same text''))),
           Some example_pending))
   \<and> map url (quotes (fst (snd
        (handle_message quote_only (\<lambda>u. no_metadata) (evening_utc + 60000000)
           (evening_local + timedelta_minutes 1)
           (snd (handle_message quote_only (\<lambda>u. no_metadata) evening_utc evening_local
                   (evening_db, Some example_pending) (sender 1 (Some ''same text''))))
           (sender 1 (Some ''fresh''))))))
       = [None, Some ''https://example.com'']
   \<and> map source_domain (quotes (fst (snd
        (handle_message quote_only (\<lambda>u. no_metadata) (evening_utc + 60000000)
           (evening_local + timedelta_minutes 1)
           (snd (handle_message quote_only (\<lambda>u. no_metadata) evening_utc evening_local
                   (evening_db, Some example_pending) (sender 1 (Some ''same text''))))
           (sender 1 (Some ''fresh''))))))
       = [None, Some ''example.com'']"
proof -
  let ?first = "handle_message quote_only (\<lambda>u. no_metadata) evening_utc evening_local
                  (evening_db, Some example_pending) (sender 1 (Some ''same text''))"
  let ?second = "handle_message quote_only (\<lambda>u. no_metadata) (evening_utc + 60000000)
                   (evening_local + timedelta_minutes 1) (snd ?first) (sender 1 (Some ''fresh''))"
  have m1: "truthy (message_text (sender 1 (Some ''same text'')))"
    and q1: "truthy (parsed_quote (quote_only (the (message_text (sender 1 (Some ''same text''))))))"
    and m2: "truthy (message_text (sender 1 (Some ''fresh'')))"
    and q2: "truthy (parsed_quote (quote_only (the (message_text (sender 1 (Some ''fresh''))))))"
    and u2: "\<not> truthy (parsed_url (quote_only (the (message_text (sender 1 (Some ''fresh''))))))"
    by (simp_all add: truthy_def quote_only_def)
  have dup: "is_duplicate evening_local
               (snd (ensure_registered evening_utc evening_db (sender 1 (Some ''same text''))))
               (effective_chat_id (sender 1 (Some ''same text'')))
               (the (parsed_quote (quote_only (the (message_text (sender 1 (Some ''same text'')))))))
               1 = Inr True"
    using evening_duplicate by (simp add: quote_only_def)
  have first_eq: "?first = (Reply ''This quote was already saved recently.'',
          (snd (ensure_registered evening_utc evening_db (sender 1 (Some ''same text''))),
           Some example_pending))"
    using m1 q1 dup by (simp add: handle_message_def Let_def split_beta)
  have fresh: "is_duplicate (evening_local + timedelta_minutes 1)
               (snd (ensure_registered (evening_utc + 60000000) (fst (snd ?first))
                       (sender 1 (Some ''fresh''))))
               (effective_chat_id (sender 1 (Some ''fresh'')))
               (the (parsed_quote (quote_only (the (message_text (sender 1 (Some ''fresh'')))))))
               1 = Inr False"
    unfolding first_eq using evening_fresh by (simp add: quote_only_def)
  have in_time: "evening_local + timedelta_minutes 1
                   \<le> pending_timestamp example_pending + timedelta_minutes 5"
    by (simp add: example_pending_def timedelta_minutes_def)
  have room: "max (quotes_seq evening_db) (max_list (map quote_id (quotes evening_db))) \<noteq> max_rowid"
    by (simp add: evening_db_def mk_row_def max_list_def max_rowid_def)
  note both = duplicate_keeps_pending_url [OF m1 q1 dup refl m2 q2 u2 fresh in_time room]
  from both have r1: "fst ?first = Reply ''This quote was already saved recently.''"
    and k1: "snd (snd ?first) = Some example_pending"
    by blast+
  from both obtain row where
    row: "quotes (fst (snd ?second)) = quotes evening_db @ [row]"
      "url row = Some (pending_url example_pending)"
      "source_domain row = domain (pending_metadata example_pending)"
    by blast
  from row have urls: "map url (quotes (fst (snd ?second))) = [None, Some ''https://example.com'']"
    and doms: "map source_domain (quotes (fst (snd ?second))) = [None, Some ''example.com'']"
    by (simp_all add: evening_db_def mk_row_def example_pending_def)
  from evening_duplicate first_eq urls doms show ?thesis by blast
qed

end
